theory Spec2Isabelle
  imports Complex_Main
begin

section \<open>JavaScript values\<close>

text \<open>
  The parser of \<^verbatim>\<open>packages/schema/src/Parser.ts\<close> takes an input of type
  \<^verbatim>\<open>unknown\<close>. The model covers plain data: the primitives, arrays and plain objects.
  A number is an opaque value that is only ever compared (\<^verbatim>\<open>===\<close>), never computed with;
  \<open>NaN\<close> is kept apart because it is not equal to itself. A symbol is its identity; the
  symbols are those that a program creates, not the well-known symbols of the language.
  An object is the list of its own enumerable properties, all of them writable data
  properties, in the order in which JavaScript enumerates them, and its prototype:
  \<open>JObj\<close> is an object whose prototype is \<^verbatim>\<open>Object.prototype\<close>, and \<open>JObjProto kvs p\<close> is an
  object whose prototype is \<open>p\<close>, another object or \<^verbatim>\<open>null\<close>. The prototype of an array is
  \<^verbatim>\<open>Array.prototype\<close>.
\<close>

datatype jsnumber = Finite rat | NaN | PosInfinity | NegInfinity

datatype jskey = KString string | KSymbol nat

datatype jsval =
    JUndefined
  | JNull
  | JBool bool
  | JNum jsnumber
  | JStr string
  | JBigInt int
  | JSym nat
  | JArr "jsval list"
  | JObj "(jskey \<times> jsval) list"
  | JObjProto "(jskey \<times> jsval) list" jsval

text \<open>\<^verbatim>\<open>ParseOptions\<close>: both fields are optional in the source and an absent field is
  falsy, so an absent field is \<open>False\<close> here.\<close>

record ParseOptions =
  isUnexpectedAllowed :: bool
  allErrors :: bool

section \<open>The AST, the parse errors and the parse results\<close>

text \<open>
  Modelled from the spec: the node kinds of the module \<^verbatim>\<open>AST\<close> (section 3.1 of the
  spec) and the errors and results of the module \<^verbatim>\<open>ParseError\<close> (section 3.2), with the
  fields that the parser reads. A \<^verbatim>\<open>ParseResult\<close> is a \<^verbatim>\<open>These\<close>: \<open>Failure\<close> is
  \<^verbatim>\<open>Left\<close> (\<^verbatim>\<open>PE.failures(es)\<close>, and \<^verbatim>\<open>PE.failure(e)\<close> is \<open>Failure [e]\<close>), \<open>Success\<close> is
  \<^verbatim>\<open>Right\<close> (\<^verbatim>\<open>PE.success(a)\<close>) and \<open>Warning\<close> is \<^verbatim>\<open>Both\<close> (\<^verbatim>\<open>PE.warnings(es, a)\<close>).
  The error \<^verbatim>\<open>Transform\<close> is \<open>TransformError\<close> here, as the node has the name.
  \<^verbatim>\<open>Tuple.rest\<close> is an optional non-empty array. A \<^verbatim>\<open>Lazy\<close> node holds its thunk; the
  datatype is inductive, so the thunks of a value of this type unfold to a finite tree.
\<close>

datatype literal = LString string | LNumber jsnumber | LBoolean bool | LNull | LBigInt int

datatype 'a nonempty = NonEmpty (headNonEmpty: 'a) (tailNonEmpty: "'a list")

datatype span_kind = SpanString | SpanNumber

datatype direction = Decoder | Guard | Encoder

datatype ast =
    TypeAlias "ast list" ast
  | Literal literal
  | UniqueSymbol nat
  | UndefinedKeyword
  | VoidKeyword
  | NeverKeyword
  | UnknownKeyword
  | AnyKeyword
  | StringKeyword
  | NumberKeyword
  | BooleanKeyword
  | BigIntKeyword
  | SymbolKeyword
  | ObjectKeyword
  | Tuple "element list" "ast nonempty option" bool
  | TypeLiteral "property_signature list" "index_signature list"
  | Union "ast list"
  | Lazy string "unit \<Rightarrow> ast"
  | Enums "(string \<times> jsval) list"
  | Refinement ast "jsval \<Rightarrow> parse_result"
  | TemplateLiteral string "(span_kind \<times> string) list"
  | Transform ast ast "jsval \<Rightarrow> ParseOptions \<Rightarrow> parse_result"
      "jsval \<Rightarrow> ParseOptions \<Rightarrow> parse_result"
and element = Element (el_type: ast) (el_isOptional: bool)
and property_signature =
    PropertySignature (ps_name: jskey) (ps_type: ast) (ps_isOptional: bool)
and index_signature =
    IndexSignature (is_parameter: ast) (is_type: ast) (is_isReadonly: bool)
and parse_error =
    Type ast jsval
  | Missing
  | Unexpected jsval
  | Equal jsval jsval
  | TransformError ast ast jsval
  | Index nat "parse_error list"
  | Key jskey "parse_error list"
  | Member "parse_error list"
and parse_result =
    Failure "parse_error list"
  | Success jsval
  | Warning "parse_error list" jsval

type_synonym parser = "jsval \<Rightarrow> ParseOptions \<Rightarrow> parse_result"

text \<open>
  What the parser takes from its host and from the annotations of a schema: the built-in
  \<^verbatim>\<open>BigInt(u)\<close> (\<open>None\<close> when it throws), the test of a string against the regular
  expression of a template literal (\<^verbatim>\<open>I.getTemplateLiteralRegex(ast).test(u)\<close>), and
  \<^verbatim>\<open>getHook\<close>, which gives the handler registered for a node, if any (section 4.1 of
  the spec). They are parameters of the model.
\<close>

record host =
  BigInt :: "jsval \<Rightarrow> int option"
  regexTest :: "string \<Rightarrow> (span_kind \<times> string) list \<Rightarrow> string \<Rightarrow> bool"
  getHook :: "ast \<Rightarrow> (parser list \<Rightarrow> parser) option"

definition isFailure :: "parse_result \<Rightarrow> bool" where
  "isFailure t = (case t of Failure _ \<Rightarrow> True | _ \<Rightarrow> False)"

section \<open>Helpers of the module \<^verbatim>\<open>internal/common\<close>\<close>

text \<open>Modelled from the spec: the refinements of the keyword primitives
  (\<^verbatim>\<open>isString\<close>, \<^verbatim>\<open>isNumber\<close>, \<^verbatim>\<open>isBoolean\<close>, \<^verbatim>\<open>I.isBigInt\<close>, \<^verbatim>\<open>I.isSymbol\<close>,
  \<^verbatim>\<open>I.isUndefined\<close>), each the test of the kind of a value.\<close>

definition isString :: "jsval \<Rightarrow> bool" where
  "isString u = (case u of JStr _ \<Rightarrow> True | _ \<Rightarrow> False)"

definition isNumber :: "jsval \<Rightarrow> bool" where
  "isNumber u = (case u of JNum _ \<Rightarrow> True | _ \<Rightarrow> False)"

definition isBoolean :: "jsval \<Rightarrow> bool" where
  "isBoolean u = (case u of JBool _ \<Rightarrow> True | _ \<Rightarrow> False)"

definition isBigInt :: "jsval \<Rightarrow> bool" where
  "isBigInt u = (case u of JBigInt _ \<Rightarrow> True | _ \<Rightarrow> False)"

definition isSymbol :: "jsval \<Rightarrow> bool" where
  "isSymbol u = (case u of JSym _ \<Rightarrow> True | _ \<Rightarrow> False)"

definition isUndefined :: "jsval \<Rightarrow> bool" where
  "isUndefined u = (u = JUndefined)"

text \<open>Modelled from the spec: \<^verbatim>\<open>I.isObject\<close>, the test of \<^verbatim>\<open>ObjectKeyword\<close>
  ("primitive shape"): a value whose \<^verbatim>\<open>typeof\<close> is \<^verbatim>\<open>"object"\<close> and that is not null.\<close>

definition isObject :: "jsval \<Rightarrow> bool" where
  "isObject u =
     (case u of JArr _ \<Rightarrow> True | JObj _ \<Rightarrow> True | JObjProto _ _ \<Rightarrow> True | _ \<Rightarrow> False)"

text \<open>Modelled from the spec: \<^verbatim>\<open>I.isUnknownObject\<close>. A type literal is to "reject
  non-object-non-null", so the test holds of the objects that are not null; an array is
  an object.\<close>

definition isUnknownObject :: "jsval \<Rightarrow> bool" where
  "isUnknownObject u =
     (case u of JArr _ \<Rightarrow> True | JObj _ \<Rightarrow> True | JObjProto _ _ \<Rightarrow> True | _ \<Rightarrow> False)"

text \<open>Modelled from the spec: \<^verbatim>\<open>I.isNotNull\<close>, the test of the type literal without
  signatures (line 321). The spec does not describe it; it is taken by its name.\<close>

definition isNotNull :: "jsval \<Rightarrow> bool" where
  "isNotNull u = (u \<noteq> JNull)"

text \<open>Modelled from the spec: \<^verbatim>\<open>I.fromRefinement(schema, refinement, onFalse)\<close>
  ("test with a refinement; emit \<open>Type\<close> (or \<open>Equal\<close>) on mismatch").\<close>

definition fromRefinement :: "(jsval \<Rightarrow> bool) \<Rightarrow> (jsval \<Rightarrow> parse_error) \<Rightarrow> parser" where
  "fromRefinement refinement onFalse =
     (\<lambda>u options. if refinement u then Success u else Failure [onFalse u])"

text \<open>Modelled from the spec: \<^verbatim>\<open>I.flatMap\<close> ("parse \<open>from\<close> first, and on success apply
  \<open>decode\<close>; \<open>decode\<close>'s failures pass through unchanged"). On a warning the value is
  passed on and the diagnostics of both steps are kept, as \<^verbatim>\<open>These\<close> chains.\<close>

definition flatMap :: "(jsval \<Rightarrow> parse_result) \<Rightarrow> parse_result \<Rightarrow> parse_result" where
  "flatMap f self =
     (case self of
        Failure es \<Rightarrow> Failure es
      | Success a \<Rightarrow> f a
      | Warning es a \<Rightarrow>
          (case f a of
             Failure es' \<Rightarrow> Failure (es @ es')
           | Success b \<Rightarrow> Warning es b
           | Warning es' b \<Rightarrow> Warning (es @ es') b))"

text \<open>\<^verbatim>\<open>u === p\<close> for a primitive \<open>p\<close> (a literal, an enum value, a symbol).\<close>

definition strictEquals :: "jsval \<Rightarrow> jsval \<Rightarrow> bool" where
  "strictEquals u p = (u = p \<and> p \<noteq> JNum NaN)"

fun literalValue :: "literal \<Rightarrow> jsval" where
  "literalValue (LString s) = JStr s"
| "literalValue (LNumber n) = JNum n"
| "literalValue (LBoolean b) = JBool b"
| "literalValue LNull = JNull"
| "literalValue (LBigInt n) = JBigInt n"

subsection \<open>Own properties\<close>

text \<open>The decimal digits of an array index, the name of its property.\<close>

fun digitsOf :: "nat \<Rightarrow> string" where
  "digitsOf n =
     (if n < 10 then [char_of (48 + n)] else digitsOf (n div 10) @ [char_of (48 + n mod 10)])"

text \<open>The own enumerable properties of a value, in enumeration order; an array has its
  indices.\<close>

fun ownProperties :: "jsval \<Rightarrow> (jskey \<times> jsval) list" where
  "ownProperties (JObj kvs) = kvs"
| "ownProperties (JObjProto kvs p) = kvs"
| "ownProperties (JArr xs) = zip (map (\<lambda>n. KString (digitsOf n)) [0..<length xs]) xs"
| "ownProperties _ = []"

fun isStringKey :: "jskey \<Rightarrow> bool" where
  "isStringKey (KString _) = True"
| "isStringKey (KSymbol _) = False"

text \<open>\<^verbatim>\<open>Object.keys(input)\<close> and \<^verbatim>\<open>Object.getOwnPropertySymbols(input)\<close>.\<close>

definition objectKeys :: "jsval \<Rightarrow> jskey list" where
  "objectKeys input = filter isStringKey (map fst (ownProperties input))"

definition getOwnPropertySymbols :: "jsval \<Rightarrow> jskey list" where
  "getOwnPropertySymbols input =
     filter (\<lambda>k. \<not> isStringKey k) (map fst (ownProperties input))"

text \<open>Modelled from the spec: \<^verbatim>\<open>I.ownKeys\<close> ("any own key"): the string keys, then the
  symbol keys.\<close>

definition ownKeys :: "jsval \<Rightarrow> jskey list" where
  "ownKeys input = objectKeys input @ getOwnPropertySymbols input"

text \<open>\<^verbatim>\<open>Object.prototype.hasOwnProperty.call(input, name)\<close>; an array also owns
  \<^verbatim>\<open>length\<close>, which is not enumerable.\<close>

definition hasOwnProperty :: "jsval \<Rightarrow> jskey \<Rightarrow> bool" where
  "hasOwnProperty input name =
     (map_of (ownProperties input) name \<noteq> None \<or>
      (case input of JArr _ \<Rightarrow> name = KString ''length'' | _ \<Rightarrow> False))"

text \<open>\<^verbatim>\<open>input[name]\<close>. The parser reads a property of the input only at a key that the
  input owns (line 355 after the test of line 342, lines 399 and 424 at the keys that the
  helpers enumerate); at any other key the model gives \<^verbatim>\<open>undefined\<close>.\<close>

definition getProperty :: "jsval \<Rightarrow> jskey \<Rightarrow> jsval" where
  "getProperty input name =
     (case map_of (ownProperties input) name of
        Some v \<Rightarrow> v
      | None \<Rightarrow>
          (case input of
             JArr xs \<Rightarrow>
               (if name = KString ''length'' then JNum (Finite (of_nat (length xs)))
                else JUndefined)
           | _ \<Rightarrow> JUndefined))"

subsection \<open>The objects that the parser builds\<close>

text \<open>
  The parser of a type literal builds two objects, \<^verbatim>\<open>output\<close> and \<^verbatim>\<open>expectedKeys\<close>, each
  created as \<^verbatim>\<open>{}\<close> and filled by assignments \<^verbatim>\<open>object[name] = v\<close>. Such an object is kept
  as its own properties in enumeration order and its prototype, \<open>None\<close> while the
  prototype is \<^verbatim>\<open>Object.prototype\<close>.
\<close>

type_synonym js_object = "(jskey \<times> jsval) list \<times> jsval option"

definition emptyObject :: js_object where
  "emptyObject = ([], None)"

text \<open>The object as a value.\<close>

fun objectValue :: "js_object \<Rightarrow> jsval" where
  "objectValue (properties, None) = JObj properties"
| "objectValue (properties, Some p) = JObjProto properties p"

text \<open>
  The language enumerates the own properties of an object with the array indices first,
  in ascending numeric order, then the other string keys and then the symbol keys, each
  in the order of their creation. An array index is a string key that is the canonical
  decimal form of an integer from 0 to 4294967294.
\<close>

definition isDigit :: "char \<Rightarrow> bool" where
  "isDigit c = (c \<in> set ''0123456789'')"

definition decimalValue :: "string \<Rightarrow> int" where
  "decimalValue s = foldl (\<lambda>n c. 10 * n + (of_char c - 48)) 0 s"

definition arrayIndex :: "jskey \<Rightarrow> int option" where
  "arrayIndex key =
     (case key of
        KString s \<Rightarrow>
          (if s \<noteq> [] \<and> list_all isDigit s \<and> (s = ''0'' \<or> hd s \<noteq> CHR ''0'')
              \<and> decimalValue s < 4294967295
           then Some (decimalValue s) else None)
      | KSymbol _ \<Rightarrow> None)"

text \<open>Whether a key that is created now is enumerated before a key that exists.\<close>

definition enumeratedBefore :: "jskey \<Rightarrow> jskey \<Rightarrow> bool" where
  "enumeratedBefore name k =
     (case arrayIndex name of
        Some n \<Rightarrow> (case arrayIndex k of Some m \<Rightarrow> n < m | None \<Rightarrow> True)
      | None \<Rightarrow> isStringKey name \<and> \<not> isStringKey k)"

text \<open>The creation of an own property, and the update of the value of one that exists.\<close>

fun createProperty :: "(jskey \<times> jsval) list \<Rightarrow> jskey \<Rightarrow> jsval \<Rightarrow> (jskey \<times> jsval) list" where
  "createProperty [] name v = [(name, v)]"
| "createProperty ((k, w) # kvs) name v =
     (if enumeratedBefore name k then (name, v) # (k, w) # kvs
      else (k, w) # createProperty kvs name v)"

fun updateProperty :: "(jskey \<times> jsval) list \<Rightarrow> jskey \<Rightarrow> jsval \<Rightarrow> (jskey \<times> jsval) list" where
  "updateProperty [] name v = []"
| "updateProperty ((k, w) # kvs) name v =
     (if k = name then (k, v) # kvs else (k, w) # updateProperty kvs name v)"

text \<open>
  \<^verbatim>\<open>Object.prototype\<close> has one property with a setter, the accessor \<^verbatim>\<open>__proto__\<close>. The
  lookup of \<^verbatim>\<open>__proto__\<close> that starts at an object finds that accessor unless the object,
  or an object on its prototype chain, owns a property of that name, or the chain ends
  in \<^verbatim>\<open>null\<close> before it reaches \<^verbatim>\<open>Object.prototype\<close>.
\<close>

definition protoKey :: jskey where
  "protoKey = KString ''__proto__''"

fun findsProtoAccessor :: "jsval \<Rightarrow> bool" where
  "findsProtoAccessor (JObj kvs) = (map_of kvs protoKey = None)"
| "findsProtoAccessor (JObjProto kvs p) = (map_of kvs protoKey = None \<and> findsProtoAccessor p)"
| "findsProtoAccessor (JArr xs) = True"
| "findsProtoAccessor _ = False"

text \<open>
  \<^verbatim>\<open>object[name] = v\<close> (lines 341, 369 and 413). An own property takes the value. Where
  the object has none of that name, the name is \<^verbatim>\<open>__proto__\<close> and the lookup finds the
  accessor, the setter runs: it replaces the prototype when \<open>v\<close> is an object or \<^verbatim>\<open>null\<close>,
  does nothing otherwise, and creates no own property. In every other case the property
  is created.
\<close>

fun setProperty :: "js_object \<Rightarrow> jskey \<Rightarrow> jsval \<Rightarrow> js_object" where
  "setProperty (properties, prototype) name v =
     (if map_of properties name \<noteq> None then (updateProperty properties name v, prototype)
      else if name = protoKey
              \<and> (case prototype of None \<Rightarrow> True | Some p \<Rightarrow> findsProtoAccessor p) then
        (if isObject v \<or> v = JNull then (properties, Some v) else (properties, prototype))
      else (createProperty properties name v, prototype))"

text \<open>A property key as the value that the parser of an index signature's parameter
  receives.\<close>

fun keyValue :: "jskey \<Rightarrow> jsval" where
  "keyValue (KString s) = JStr s"
| "keyValue (KSymbol n) = JSym n"

text \<open>Modelled from the spec: \<^verbatim>\<open>I.getKeysForIndexSignature(input, parameter)\<close>
  ("enumerate the keys of \<open>input\<close> that match the parameter's key kind (string keys,
  symbol keys, or template-literal-constrained keys)").\<close>

definition getKeysForIndexSignature :: "host \<Rightarrow> jsval \<Rightarrow> ast \<Rightarrow> jskey list" where
  "getKeysForIndexSignature h input parameter =
     (case parameter of
        StringKeyword \<Rightarrow> objectKeys input
      | SymbolKeyword \<Rightarrow> getOwnPropertySymbols input
      | TemplateLiteral head spans \<Rightarrow>
          filter (\<lambda>k. case k of KString s \<Rightarrow> regexTest h head spans s | _ \<Rightarrow> False)
            (objectKeys input)
      | _ \<Rightarrow> [])"

section \<open>The constants of \<^verbatim>\<open>Parser.ts\<close>\<close>

definition unknownArray :: ast where
  "unknownArray = Tuple [] (Some (NonEmpty UnknownKeyword [])) True"

definition unknownRecord :: ast where
  "unknownRecord =
     TypeLiteral []
       [IndexSignature StringKeyword UnknownKeyword True,
        IndexSignature SymbolKeyword UnknownKeyword True]"

definition primitive :: ast where
  "primitive = Union [StringKeyword, NumberKeyword, BooleanKeyword]"

fun isUnexpected :: "parse_error \<Rightarrow> bool" where
  "isUnexpected (Unexpected _) = True"
| "isUnexpected _ = False"

fun hasUnexpectedError :: "parse_error \<Rightarrow> bool" where
  "hasUnexpectedError (Key k errors) = list_ex isUnexpected errors"
| "hasUnexpectedError (Index i errors) = list_ex isUnexpected errors"
| "hasUnexpectedError _ = False"

section \<open>The parser of a tuple\<close>

text \<open>
  The closure that \<^verbatim>\<open>go\<close> returns for a \<^verbatim>\<open>Tuple\<close> node (lines 187 to 312). Its
  mutable locals are \<^verbatim>\<open>output\<close>, \<^verbatim>\<open>es\<close>, \<^verbatim>\<open>isLeft\<close> and the index \<^verbatim>\<open>i\<close>, which is shared by
  the loops. Every loop is a recursive function over that state: \<open>Inl r\<close> is the
  statement \<^verbatim>\<open>return r\<close> inside the loop, \<open>Inr\<close> is the state at the loop's exit.
  \<^verbatim>\<open>I.mutableAppend(es, e)\<close> is \<open>es @ [e]\<close>.
\<close>

type_synonym tuple_state = "jsval list \<times> parse_error list \<times> bool"

text \<open>Lines 199 to 234: \<^verbatim>\<open>for (; i < elements.length; i++)\<close>, over the element parsers
  paired with their \<^verbatim>\<open>ast.elements[i]\<close>.\<close>

fun handle_elements ::
  "(element \<times> parser) list \<Rightarrow> jsval list \<Rightarrow> ParseOptions \<Rightarrow> nat \<Rightarrow> tuple_state
     \<Rightarrow> parse_result + (tuple_state \<times> nat)" where
  "handle_elements [] input options i st = Inr (st, i)"
| "handle_elements ((el, parser) # elements) input options i (output, es, isLeft) =
     (if length input < i + 1 then
        (if el_isOptional el then
           handle_elements elements input options (i + 1) (output, es, isLeft)
         else
           (let e = Index i [Missing] in
            if allErrors options then
              handle_elements elements input options (i + 1) (output, es @ [e], True)
            else Inl (Failure [e])))
      else
        (case parser (input ! i) options of
           Failure l \<Rightarrow>
             (let e = Index i l in
              if allErrors options then
                handle_elements elements input options (i + 1) (output, es @ [e], True)
              else Inl (Failure (es @ [e])))
         | Warning l r \<Rightarrow>
             handle_elements elements input options (i + 1)
               (output @ [r], es @ [Index i l], isLeft)
         | Success r \<Rightarrow>
             handle_elements elements input options (i + 1) (output @ [r], es, isLeft)))"

text \<open>Lines 241 to 258: \<^verbatim>\<open>for (; i < input.length - tail.length; i++)\<close>.\<close>

function handle_rest_element ::
  "parser \<Rightarrow> nat \<Rightarrow> jsval list \<Rightarrow> ParseOptions \<Rightarrow> nat \<Rightarrow> tuple_state
     \<Rightarrow> parse_result + (tuple_state \<times> nat)" where
  "handle_rest_element head tail_length input options i (output, es, isLeft) =
     (if int i < int (length input) - int tail_length then
        (case head (input ! i) options of
           Failure l \<Rightarrow>
             (let e = Index i l in
              if allErrors options then
                handle_rest_element head tail_length input options (i + 1)
                  (output, es @ [e], True)
              else Inl (Failure (es @ [e])))
         | Warning l r \<Rightarrow>
             handle_rest_element head tail_length input options (i + 1)
               (output @ [r], es @ [Index i l], isLeft)
         | Success r \<Rightarrow>
             handle_rest_element head tail_length input options (i + 1)
               (output @ [r], es, isLeft))
      else Inr ((output, es, isLeft), i))"
  by pat_completeness auto
termination
  by (relation "measure (\<lambda>(head, tail_length, input, options, i, st). length input - i)") auto

declare handle_rest_element.simps [simp del]

text \<open>Lines 262 to 284: \<^verbatim>\<open>for (let j = 0; j < tail.length; j++) { i += j; ... }\<close>, over
  the parsers \<^verbatim>\<open>tail[j]\<close>.\<close>

fun handle_post_rest_elements ::
  "parser list \<Rightarrow> jsval list \<Rightarrow> ParseOptions \<Rightarrow> nat \<Rightarrow> nat \<Rightarrow> tuple_state
     \<Rightarrow> parse_result + tuple_state" where
  "handle_post_rest_elements [] input options j i st = Inr st"
| "handle_post_rest_elements (parser # tail) input options j i0 (output, es, isLeft) =
     (let i = i0 + j in
      if length input < i + 1 then Inl (Failure (es @ [Index i [Missing]]))
      else
        (case parser (input ! i) options of
           Failure l \<Rightarrow>
             (let e = Index i l in
              if allErrors options then
                handle_post_rest_elements tail input options (j + 1) i (output, es @ [e], True)
              else Inl (Failure (es @ [e])))
         | Warning l r \<Rightarrow>
             handle_post_rest_elements tail input options (j + 1) i
               (output @ [r], es @ [Index i l], isLeft)
         | Success r \<Rightarrow>
             handle_post_rest_elements tail input options (j + 1) i
               (output @ [r], es, isLeft)))"

text \<open>Lines 290 to 303: \<^verbatim>\<open>for (; i < input.length; i++)\<close>.\<close>

function handle_unexpected_indexes ::
  "jsval list \<Rightarrow> ParseOptions \<Rightarrow> nat \<Rightarrow> tuple_state \<Rightarrow> parse_result + tuple_state" where
  "handle_unexpected_indexes input options i (output, es, isLeft) =
     (if i < length input then
        (let e = Index i [Unexpected (input ! i)] in
         if isUnexpectedAllowed options then
           handle_unexpected_indexes input options (i + 1) (output, es @ [e], isLeft)
         else if allErrors options then
           handle_unexpected_indexes input options (i + 1) (output, es @ [e], True)
         else Inl (Failure (es @ [e])))
      else Inr (output, es, isLeft))"
  by pat_completeness auto
termination
  by (relation "measure (\<lambda>(input, options, i, st). length input - i)") auto

declare handle_unexpected_indexes.simps [simp del]

text \<open>Lines 309 to 311 and 443 to 445: \<^verbatim>\<open>I.isNonEmpty(es) ? isLeft ? PE.failures(es) :
  PE.warnings(es, output) : PE.success(output)\<close>.\<close>

definition compute_output :: "parse_error list \<Rightarrow> bool \<Rightarrow> jsval \<Rightarrow> parse_result" where
  "compute_output es isLeft output =
     (if es \<noteq> [] then (if isLeft then Failure es else Warning es output)
      else Success output)"

definition tuple_parse ::
  "element list \<Rightarrow> parser list \<Rightarrow> parser nonempty option \<Rightarrow> parser" where
  "tuple_parse ast_elements elements rest input options =
     (case input of
        JArr xs \<Rightarrow>
          (case handle_elements (zip ast_elements elements) xs options 0 ([], [], False) of
             Inl r \<Rightarrow> r
           | Inr (st, i) \<Rightarrow>
               (case rest of
                  Some rest_value \<Rightarrow>
                    (let head = headNonEmpty rest_value; tail = tailNonEmpty rest_value in
                     case handle_rest_element head (length tail) xs options i st of
                       Inl r \<Rightarrow> r
                     | Inr (st', i') \<Rightarrow>
                         (case handle_post_rest_elements tail xs options 0 i' st' of
                            Inl r \<Rightarrow> r
                          | Inr (output, es, isLeft) \<Rightarrow>
                              compute_output es isLeft (JArr output)))
                | None \<Rightarrow>
                    (case handle_unexpected_indexes xs options i st of
                       Inl r \<Rightarrow> r
                     | Inr (output, es, isLeft) \<Rightarrow>
                         compute_output es isLeft (JArr output))))
      | _ \<Rightarrow> Failure [Type unknownArray input])"

section \<open>The parser of a type literal\<close>

text \<open>
  The closure for a \<^verbatim>\<open>TypeLiteral\<close> node (lines 325 to 446), with the locals
  \<^verbatim>\<open>output\<close>, \<^verbatim>\<open>expectedKeys\<close>, \<^verbatim>\<open>es\<close> and \<^verbatim>\<open>isLeft\<close>.
\<close>

type_synonym record_state = "js_object \<times> js_object \<times> parse_error list \<times> bool"

text \<open>Lines 337 to 370. \<^verbatim>\<open>expectedKeys[name] = null\<close> is an assignment to an object as
  well.\<close>

fun handle_property_signatures ::
  "(property_signature \<times> parser) list \<Rightarrow> jsval \<Rightarrow> ParseOptions \<Rightarrow> record_state
     \<Rightarrow> parse_result + record_state" where
  "handle_property_signatures [] input options st = Inr st"
| "handle_property_signatures ((ps, parser) # pss) input options
       (output, expectedKeys0, es, isLeft) =
     (let name = ps_name ps; expectedKeys = setProperty expectedKeys0 name JNull in
      if \<not> hasOwnProperty input name then
        (if ps_isOptional ps then
           handle_property_signatures pss input options (output, expectedKeys, es, isLeft)
         else
           (let e = Key name [Missing] in
            if allErrors options then
              handle_property_signatures pss input options
                (output, expectedKeys, es @ [e], True)
            else Inl (Failure [e])))
      else
        (case parser (getProperty input name) options of
           Failure l \<Rightarrow>
             (let e = Key name l in
              if allErrors options then
                handle_property_signatures pss input options
                  (output, expectedKeys, es @ [e], True)
              else Inl (Failure (es @ [e])))
         | Warning l r \<Rightarrow>
             handle_property_signatures pss input options
               (setProperty output name r, expectedKeys, es @ [Key name l], isLeft)
         | Success r \<Rightarrow>
             handle_property_signatures pss input options
               (setProperty output name r, expectedKeys, es, isLeft)))"

text \<open>Lines 379 to 415: \<^verbatim>\<open>for (const key of keys)\<close> of one index signature.\<close>

fun handle_keys ::
  "parser \<Rightarrow> parser \<Rightarrow> jskey list \<Rightarrow> jsval \<Rightarrow> ParseOptions \<Rightarrow> record_state
     \<Rightarrow> parse_result + record_state" where
  "handle_keys parameter type [] input options st = Inr st"
| "handle_keys parameter type (key # keys) input options (output, expectedKeys, es0, isLeft) =
     (case parameter (keyValue key) options of
        Failure l \<Rightarrow>
          (let e = Key key l in
           if allErrors options then
             handle_keys parameter type keys input options
               (output, expectedKeys, es0 @ [e], True)
           else Inl (Failure (es0 @ [e])))
      | t \<Rightarrow>
          (let es = (case t of Warning l _ \<Rightarrow> es0 @ [Key key l] | _ \<Rightarrow> es0) in
           case type (getProperty input key) options of
             Failure l \<Rightarrow>
               (let e = Key key l in
                if allErrors options then
                  handle_keys parameter type keys input options
                    (output, expectedKeys, es @ [e], True)
                else Inl (Failure (es @ [e])))
           | Warning l r \<Rightarrow>
               handle_keys parameter type keys input options
                 (setProperty output key r, expectedKeys, es @ [Key key l], isLeft)
           | Success r \<Rightarrow>
               handle_keys parameter type keys input options
                 (setProperty output key r, expectedKeys, es, isLeft)))"

text \<open>Lines 375 to 416: \<^verbatim>\<open>for (let i = 0; i < indexSignatures.length; i++)\<close>, over the
  pairs of parsers paired with their \<^verbatim>\<open>ast.indexSignatures[i]\<close>.\<close>

fun handle_index_signatures ::
  "host \<Rightarrow> (index_signature \<times> parser \<times> parser) list \<Rightarrow> jsval \<Rightarrow> ParseOptions
     \<Rightarrow> record_state \<Rightarrow> parse_result + record_state" where
  "handle_index_signatures h [] input options st = Inr st"
| "handle_index_signatures h ((sig, parameter, type) # sigs) input options st =
     (let keys = getKeysForIndexSignature h input (is_parameter sig) in
      case handle_keys parameter type keys input options st of
        Inl r \<Rightarrow> Inl r
      | Inr st' \<Rightarrow> handle_index_signatures h sigs input options st')"

text \<open>Lines 422 to 437: \<^verbatim>\<open>for (const key of I.ownKeys(input))\<close>, with the test
  \<^verbatim>\<open>Object.prototype.hasOwnProperty.call(expectedKeys, key)\<close>.\<close>

fun handle_unexpected_keys ::
  "jskey list \<Rightarrow> jsval \<Rightarrow> ParseOptions \<Rightarrow> record_state \<Rightarrow> parse_result + record_state" where
  "handle_unexpected_keys [] input options st = Inr st"
| "handle_unexpected_keys (key # keys) input options (output, expectedKeys, es, isLeft) =
     (if \<not> hasOwnProperty (objectValue expectedKeys) key then
        (let e = Key key [Unexpected (getProperty input key)] in
         if isUnexpectedAllowed options then
           handle_unexpected_keys keys input options (output, expectedKeys, es @ [e], isLeft)
         else if allErrors options then
           handle_unexpected_keys keys input options (output, expectedKeys, es @ [e], True)
         else Inl (Failure (es @ [e])))
      else handle_unexpected_keys keys input options (output, expectedKeys, es, isLeft))"

definition type_literal_parse ::
  "host \<Rightarrow> property_signature list \<Rightarrow> index_signature list \<Rightarrow> parser list
     \<Rightarrow> (parser \<times> parser) list \<Rightarrow> parser" where
  "type_literal_parse h ast_propertySignatures ast_indexSignatures propertySignaturesTypes
       indexSignatures input options =
     (if \<not> isUnknownObject input then Failure [Type unknownRecord input]
      else
        (case handle_property_signatures (zip ast_propertySignatures propertySignaturesTypes)
                input options (emptyObject, emptyObject, [], False) of
           Inl r \<Rightarrow> r
         | Inr st \<Rightarrow>
             (case (if length indexSignatures > 0 then
                      handle_index_signatures h (zip ast_indexSignatures indexSignatures)
                        input options st
                    else handle_unexpected_keys (ownKeys input) input options st) of
                Inl r \<Rightarrow> r
              | Inr (output, expectedKeys, es, isLeft) \<Rightarrow>
                  compute_output es isLeft (objectValue output))))"

section \<open>The parser of a union\<close>

text \<open>Lines 458 to 475; the candidate \<^verbatim>\<open>output\<close> is \<^verbatim>\<open>null\<close> or a warning, kept as
  its errors and its value.\<close>

fun compute_best_output ::
  "parser list \<Rightarrow> jsval \<Rightarrow> ParseOptions \<Rightarrow> parse_error list
     \<Rightarrow> (parse_error list \<times> jsval) option
     \<Rightarrow> parse_result + (parse_error list \<times> (parse_error list \<times> jsval) option)" where
  "compute_best_output [] u options es output = Inr (es, output)"
| "compute_best_output (parser # types) u options es output =
     (case parser u options of
        Success r \<Rightarrow> Inl (Success r)
      | Warning l r \<Rightarrow>
          (if (case output of
                 None \<Rightarrow> True
               | Some (output_left, _) \<Rightarrow>
                   length (filter hasUnexpectedError output_left)
                     > length (filter hasUnexpectedError l))
           then compute_best_output types u options es (Some (l, r))
           else compute_best_output types u options es output)
      | Failure l \<Rightarrow> compute_best_output types u options (es @ [Member l]) output)"

definition union_parse :: "parser list \<Rightarrow> parser" where
  "union_parse types u options =
     (case compute_best_output types u options [] None of
        Inl r \<Rightarrow> r
      | Inr (es, output) \<Rightarrow>
          (case output of
             Some (l, r) \<Rightarrow> Warning l r
           | None \<Rightarrow> if es \<noteq> [] then Failure es else Failure [Type NeverKeyword u]))"

section \<open>The parsers of a refinement and of a transform\<close>

text \<open>Line 505: \<^verbatim>\<open>(u, options) => pipe(type.parse(u, options), I.flatMap(ast.decode))\<close>.\<close>

definition refinement_parse :: "parser \<Rightarrow> (jsval \<Rightarrow> parse_result) \<Rightarrow> parser" where
  "refinement_parse type decode = (\<lambda>u options. flatMap decode (type u options))"

text \<open>Line 524: \<^verbatim>\<open>(u, options) => pipe(from.parse(u, options), I.flatMap((a) =>
  ast.decode(a, options)))\<close>.\<close>

definition transform_decoder ::
  "parser \<Rightarrow> (jsval \<Rightarrow> ParseOptions \<Rightarrow> parse_result) \<Rightarrow> parser" where
  "transform_decoder from decode =
     (\<lambda>u options. flatMap (\<lambda>a. decode a options) (from u options))"

text \<open>Line 533: \<^verbatim>\<open>(a, options) => pipe(ast.encode(a, options), I.flatMap((a) =>
  from.parse(a, options)))\<close>.\<close>

definition transform_encoder ::
  "parser \<Rightarrow> (jsval \<Rightarrow> ParseOptions \<Rightarrow> parse_result) \<Rightarrow> parser" where
  "transform_encoder from encode =
     (\<lambda>a options. flatMap (\<lambda>a. from a options) (encode a options))"

section \<open>The interpreter\<close>

text \<open>\<^verbatim>\<open>go\<close> of \<^verbatim>\<open>parserFor(schema, as)\<close> (lines 120 to 539), by recursion on the node.\<close>

primrec go :: "host \<Rightarrow> direction \<Rightarrow> ast \<Rightarrow> parser"
  and go_element :: "host \<Rightarrow> direction \<Rightarrow> element \<Rightarrow> parser"
  and go_property_signature :: "host \<Rightarrow> direction \<Rightarrow> property_signature \<Rightarrow> parser"
  and go_index_signature :: "host \<Rightarrow> direction \<Rightarrow> index_signature \<Rightarrow> parser \<times> parser"
where
  "go h as (TypeAlias typeParameters t) =
     (case getHook h (TypeAlias typeParameters t) of
        None \<Rightarrow> go h as t
      | Some handler \<Rightarrow> handler (map (go h as) typeParameters))"
| "go h as (Literal l) =
     fromRefinement (\<lambda>u. strictEquals u (literalValue l)) (\<lambda>u. Equal (literalValue l) u)"
| "go h as (UniqueSymbol s) =
     fromRefinement (\<lambda>u. strictEquals u (JSym s)) (\<lambda>u. Equal (JSym s) u)"
| "go h as UndefinedKeyword = fromRefinement isUndefined (\<lambda>u. Type UndefinedKeyword u)"
| "go h as VoidKeyword = fromRefinement isUndefined (\<lambda>u. Type VoidKeyword u)"
| "go h as NeverKeyword = (\<lambda>u options. Failure [Type NeverKeyword u])"
| "go h as UnknownKeyword = (\<lambda>u options. Success u)"
| "go h as AnyKeyword = (\<lambda>u options. Success u)"
| "go h as StringKeyword = fromRefinement isString (\<lambda>u. Type StringKeyword u)"
| "go h as NumberKeyword =
     (\<lambda>u options. if isNumber u then Success u else Failure [Type NumberKeyword u])"
| "go h as BooleanKeyword = fromRefinement isBoolean (\<lambda>u. Type BooleanKeyword u)"
| "go h as BigIntKeyword =
     (\<lambda>u options.
        if isBigInt u then Success u
        else if isString u \<or> isNumber u \<or> isBoolean u then
          (case BigInt h u of
             Some n \<Rightarrow> Success (JBigInt n)
           | None \<Rightarrow> Failure [TransformError primitive BigIntKeyword u])
        else Failure [Type primitive u])"
| "go h as SymbolKeyword = fromRefinement isSymbol (\<lambda>u. Type SymbolKeyword u)"
| "go h as ObjectKeyword = fromRefinement isObject (\<lambda>u. Type ObjectKeyword u)"
| "go h as (Tuple elements rest isReadonly) =
     tuple_parse elements (map (go_element h as) elements)
       (map_option (map_nonempty (go h as)) rest)"
| "go h as (TypeLiteral propertySignatures indexSignatures) =
     (if length (map (go_property_signature h as) propertySignatures) = 0
         \<and> length (map (go_index_signature h as) indexSignatures) = 0
      then fromRefinement isNotNull (\<lambda>u. Type (TypeLiteral propertySignatures indexSignatures) u)
      else type_literal_parse h propertySignatures indexSignatures
             (map (go_property_signature h as) propertySignatures)
             (map (go_index_signature h as) indexSignatures))"
| "go h as (Union types) = union_parse (map (go h as) types)"
| "go h as (Lazy identifier f) = (\<lambda>a options. go h as (f ()) a options)"
| "go h as (Enums enums) =
     (\<lambda>u options.
        if list_ex (\<lambda>(_, v). strictEquals u v) enums then Success u
        else Failure [Type (Enums enums) u])"
| "go h as (Refinement from decode) = refinement_parse (go h as from) (\<lambda>a. decode a)"
| "go h as (TemplateLiteral head spans) =
     (\<lambda>u options.
        (case u of
           JStr s \<Rightarrow>
             (if regexTest h head spans s then Success u
              else Failure [Type (TemplateLiteral head spans) u])
         | _ \<Rightarrow> Failure [Type StringKeyword u]))"
| "go h as (Transform from to decode encode) =
     (case as of
        Decoder \<Rightarrow> transform_decoder (go h as from) (\<lambda>a options. decode a options)
      | Guard \<Rightarrow> go h as to
      | Encoder \<Rightarrow> transform_encoder (go h as from) (\<lambda>a options. encode a options))"
| "go_element h as (Element t isOptional) = go h as t"
| "go_property_signature h as (PropertySignature name t isOptional) = go h as t"
| "go_index_signature h as (IndexSignature parameter t isReadonly) =
     (go h as parameter, go h as t)"

text \<open>The public operations (lines 54 to 56 and 75 to 77); a schema is its AST.\<close>

definition parserFor :: "host \<Rightarrow> ast \<Rightarrow> direction \<Rightarrow> parser" where
  "parserFor h schema as = go h as schema"

definition decode :: "host \<Rightarrow> ast \<Rightarrow> jsval \<Rightarrow> ParseOptions \<Rightarrow> parse_result" where
  "decode h schema = parserFor h schema Decoder"

definition is_schema :: "host \<Rightarrow> ast \<Rightarrow> jsval \<Rightarrow> ParseOptions \<Rightarrow> bool" where
  "is_schema h schema input options = (\<not> isFailure (parserFor h schema Guard input options))"

definition encode :: "host \<Rightarrow> ast \<Rightarrow> jsval \<Rightarrow> ParseOptions \<Rightarrow> parse_result" where
  "encode h schema = parserFor h schema Encoder"

section \<open>A host for the examples\<close>

text \<open>
  The examples below run on a host without hooks. Its \<^verbatim>\<open>BigInt\<close> follows the
  language: a boolean gives 0 or 1, a number gives its value when it is integral and
  throws otherwise, and a string is trimmed and read as an empty string (zero), as
  signed decimal digits, or as digits after one of the prefixes \<^verbatim>\<open>0x\<close>, \<^verbatim>\<open>0o\<close>, \<^verbatim>\<open>0b\<close>.
  None of the examples has a template literal with placeholders; a template without
  placeholders matches its head.
\<close>

definition isWhiteSpace :: "char \<Rightarrow> bool" where
  "isWhiteSpace c = (of_char c \<in> {9, 10, 11, 12, 13, 32 :: nat})"

definition digitValue :: "char \<Rightarrow> nat option" where
  "digitValue c =
     (let n = (of_char c :: nat) in
      if 48 \<le> n \<and> n \<le> 57 then Some (n - 48)
      else if 97 \<le> n \<and> n \<le> 122 then Some (n - 87)
      else if 65 \<le> n \<and> n \<le> 90 then Some (n - 55)
      else None)"

fun digitsValue :: "nat \<Rightarrow> string \<Rightarrow> nat \<Rightarrow> nat option" where
  "digitsValue radix [] acc = Some acc"
| "digitsValue radix (c # cs) acc =
     (case digitValue c of
        Some d \<Rightarrow> if d < radix then digitsValue radix cs (acc * radix + d) else None
      | None \<Rightarrow> None)"

definition parseDigits :: "nat \<Rightarrow> string \<Rightarrow> nat option" where
  "parseDigits radix s = (if s = [] then None else digitsValue radix s 0)"

definition stringToBigInt :: "string \<Rightarrow> int option" where
  "stringToBigInt s =
     (let t = rev (dropWhile isWhiteSpace (rev (dropWhile isWhiteSpace s))) in
      case t of
        [] \<Rightarrow> Some 0
      | c # cs \<Rightarrow>
          if c = CHR ''+'' then map_option int (parseDigits 10 cs)
          else if c = CHR ''-'' then map_option (\<lambda>n. - int n) (parseDigits 10 cs)
          else if c = CHR ''0'' \<and> cs \<noteq> [] \<and> (hd cs = CHR ''x'' \<or> hd cs = CHR ''X'')
            then map_option int (parseDigits 16 (tl cs))
          else if c = CHR ''0'' \<and> cs \<noteq> [] \<and> (hd cs = CHR ''o'' \<or> hd cs = CHR ''O'')
            then map_option int (parseDigits 8 (tl cs))
          else if c = CHR ''0'' \<and> cs \<noteq> [] \<and> (hd cs = CHR ''b'' \<or> hd cs = CHR ''B'')
            then map_option int (parseDigits 2 (tl cs))
          else map_option int (parseDigits 10 t))"

definition hostBigInt :: "jsval \<Rightarrow> int option" where
  "hostBigInt u =
     (case u of
        JBool b \<Rightarrow> Some (if b then 1 else 0)
      | JNum n \<Rightarrow>
          (case n of
             Finite q \<Rightarrow> if of_int \<lfloor>q\<rfloor> = q then Some \<lfloor>q\<rfloor> else None
           | _ \<Rightarrow> None)
      | JStr s \<Rightarrow> stringToBigInt s
      | JBigInt n \<Rightarrow> Some n
      | _ \<Rightarrow> None)"

definition plain_host :: host where
  "plain_host =
     \<lparr>BigInt = hostBigInt,
      regexTest = (\<lambda>head spans s. spans = [] \<and> s = head),
      getHook = (\<lambda>_. None)\<rparr>"

section \<open>Schemas without transforms\<close>

text \<open>A schema in which no \<^verbatim>\<open>Transform\<close> node is compiled: none among the type
  parameters and the body of an alias, the elements and the rest of a tuple, the
  signatures of a type literal, the members of a union, the result of a thunk or the
  source of a refinement.\<close>

primrec transformFree :: "ast \<Rightarrow> bool"
  and transformFree_element :: "element \<Rightarrow> bool"
  and transformFree_property_signature :: "property_signature \<Rightarrow> bool"
  and transformFree_index_signature :: "index_signature \<Rightarrow> bool"
where
  "transformFree (TypeAlias typeParameters t) =
     (list_all id (map transformFree typeParameters) \<and> transformFree t)"
| "transformFree (Literal l) = True"
| "transformFree (UniqueSymbol s) = True"
| "transformFree UndefinedKeyword = True"
| "transformFree VoidKeyword = True"
| "transformFree NeverKeyword = True"
| "transformFree UnknownKeyword = True"
| "transformFree AnyKeyword = True"
| "transformFree StringKeyword = True"
| "transformFree NumberKeyword = True"
| "transformFree BooleanKeyword = True"
| "transformFree BigIntKeyword = True"
| "transformFree SymbolKeyword = True"
| "transformFree ObjectKeyword = True"
| "transformFree (Tuple elements rest isReadonly) =
     (list_all id (map transformFree_element elements) \<and>
      (case map_option (map_nonempty transformFree) rest of
         None \<Rightarrow> True
       | Some r \<Rightarrow> headNonEmpty r \<and> list_all id (tailNonEmpty r)))"
| "transformFree (TypeLiteral propertySignatures indexSignatures) =
     (list_all id (map transformFree_property_signature propertySignatures) \<and>
      list_all id (map transformFree_index_signature indexSignatures))"
| "transformFree (Union types) = list_all id (map transformFree types)"
| "transformFree (Lazy identifier f) = transformFree (f ())"
| "transformFree (Enums enums) = True"
| "transformFree (Refinement from dec) = transformFree from"
| "transformFree (TemplateLiteral head spans) = True"
| "transformFree (Transform from to dec enc) = False"
| "transformFree_element (Element t isOptional) = transformFree t"
| "transformFree_property_signature (PropertySignature name t isOptional) = transformFree t"
| "transformFree_index_signature (IndexSignature parameter t isReadonly) =
     (transformFree parameter \<and> transformFree t)"

section \<open>Notions used in the statements\<close>

text \<open>The errors of a result (\<^verbatim>\<open>t.left\<close>; none for a success).\<close>

fun errorsOf :: "parse_result \<Rightarrow> parse_error list" where
  "errorsOf (Failure es) = es"
| "errorsOf (Success a) = []"
| "errorsOf (Warning es a) = es"

text \<open>
  Modelled from the spec: the unexpected-key and unexpected-index diagnostics of a
  warning, by whose number a union is to rank its candidates ("the candidate with the
  fewest unexpected-key/index diagnostics", "the fewest unexpecteds"). A diagnostic is an
  error of the tree of errors; an unexpected one is an \<open>Unexpected\<close> error, which stands
  under the \<open>Key\<close> or the \<open>Index\<close> of the key or index that was not expected.
\<close>

primrec unexpectedDiagnostics :: "parse_error \<Rightarrow> nat" where
  "unexpectedDiagnostics (Type a actual) = 0"
| "unexpectedDiagnostics Missing = 0"
| "unexpectedDiagnostics (Unexpected actual) = 1"
| "unexpectedDiagnostics (Equal expected actual) = 0"
| "unexpectedDiagnostics (TransformError a b actual) = 0"
| "unexpectedDiagnostics (Index i es) = sum_list (map unexpectedDiagnostics es)"
| "unexpectedDiagnostics (Key k es) = sum_list (map unexpectedDiagnostics es)"
| "unexpectedDiagnostics (Member es) = sum_list (map unexpectedDiagnostics es)"

definition unexpectedDiagnosticsOf :: "parse_error list \<Rightarrow> nat" where
  "unexpectedDiagnosticsOf es = sum_list (map unexpectedDiagnostics es)"

text \<open>
  The measure of the amended claim: the number of the errors of the warning itself (not
  of the errors below them) that are a \<open>Key\<close> or an \<open>Index\<close> error with an \<open>Unexpected\<close>
  error among its own children.
\<close>

fun holdsUnexpected :: "parse_error list \<Rightarrow> bool" where
  "holdsUnexpected [] = False"
| "holdsUnexpected (Unexpected actual # es) = True"
| "holdsUnexpected (e # es) = holdsUnexpected es"

fun reportsUnexpected :: "parse_error \<Rightarrow> bool" where
  "reportsUnexpected (Key k es) = holdsUnexpected es"
| "reportsUnexpected (Index i es) = holdsUnexpected es"
| "reportsUnexpected e = False"

definition topLevelUnexpected :: "parse_error list \<Rightarrow> nat" where
  "topLevelUnexpected es = length (filter reportsUnexpected es)"

text \<open>The warnings among the results of the branches of a union, in branch order, and
  the failures among them, each wrapped as a member.\<close>

fun warningsOf :: "parse_result list \<Rightarrow> (parse_error list \<times> jsval) list" where
  "warningsOf [] = []"
| "warningsOf (Warning es a # rs) = (es, a) # warningsOf rs"
| "warningsOf (Failure es # rs) = warningsOf rs"
| "warningsOf (Success a # rs) = warningsOf rs"

fun membersOf :: "parse_result list \<Rightarrow> parse_error list" where
  "membersOf [] = []"
| "membersOf (Failure es # rs) = Member es # membersOf rs"
| "membersOf (Warning es a # rs) = membersOf rs"
| "membersOf (Success a # rs) = membersOf rs"

fun isSuccess :: "parse_result \<Rightarrow> bool" where
  "isSuccess (Success a) = True"
| "isSuccess (Failure es) = False"
| "isSuccess (Warning es a) = False"

text \<open>The candidates of a union's loop: the warning it holds, if any, before the
  warnings still to come.\<close>

definition candidates ::
  "(parse_error list \<times> jsval) option \<Rightarrow> (parse_error list \<times> jsval) list \<Rightarrow> (parse_error list \<times> jsval) list" where
  "candidates out ws = (case out of None \<Rightarrow> [] | Some c \<Rightarrow> [c]) @ ws"

text \<open>The value of a result (\<^verbatim>\<open>t.right\<close>, which is \<^verbatim>\<open>undefined\<close> on a failure).\<close>

fun right :: "parse_result \<Rightarrow> jsval" where
  "right (Failure es) = JUndefined"
| "right (Success a) = a"
| "right (Warning es a) = a"

text \<open>What the result of the element at index \<open>i\<close> adds to the errors of a tuple when it
  is a warning (lines 229 to 231).\<close>

fun warningAt :: "nat \<Rightarrow> parse_result \<Rightarrow> parse_error list" where
  "warningAt i (Warning es a) = [Index i es]"
| "warningAt i (Success a) = []"
| "warningAt i (Failure es) = []"

text \<open>
  The expected set of a type literal, as the parser builds it: a declared name is in
  the set, except \<^verbatim>\<open>__proto__\<close>, which is in the set only when two property signatures
  declare it (the first assignment \<^verbatim>\<open>expectedKeys["__proto__"] = null\<close> runs the setter of
  \<^verbatim>\<open>Object.prototype\<close> and takes the prototype away, the second one creates the property).
\<close>

definition expected :: "jskey list \<Rightarrow> jskey \<Rightarrow> bool" where
  "expected names key =
     (if key = protoKey then 2 \<le> count_list names key else key \<in> set names)"

text \<open>What the result of the element at index \<open>i\<close> adds to the errors of a tuple,
  whether it is a warning or a failure (lines 221 and 230).\<close>

fun errorAt :: "nat \<Rightarrow> parse_result \<Rightarrow> parse_error list" where
  "errorAt i (Failure es) = [Index i es]"
| "errorAt i (Warning es a) = [Index i es]"
| "errorAt i (Success a) = []"


text \<open>Whether one of the errors is at the key.\<close>

fun atKey :: "jskey \<Rightarrow> parse_error \<Rightarrow> bool" where
  "atKey key (Key k es) = (k = key)"
| "atKey key _ = False"

definition mentionsKey :: "jskey \<Rightarrow> parse_error list \<Rightarrow> bool" where
  "mentionsKey key es = list_ex (atKey key) es"

section \<open>Example schemas\<close>

text \<open>The options of an example.\<close>

definition parse_options :: "bool \<Rightarrow> bool \<Rightarrow> ParseOptions" where
  "parse_options unexpectedAllowed all = \<lparr>isUnexpectedAllowed = unexpectedAllowed, allErrors = all\<rparr>"

text \<open>\<^verbatim>\<open>{kind: "a", x: number} | {kind: "b", y: number}\<close> and the input
  \<^verbatim>\<open>{kind: "b", y: 3, extra: 1}\<close> of the spec's third scenario.\<close>

definition kind_union :: ast where
  "kind_union =
     Union
       [TypeLiteral
          [PropertySignature (KString ''kind'') (Literal (LString ''a'')) False,
           PropertySignature (KString ''x'') NumberKeyword False] [],
        TypeLiteral
          [PropertySignature (KString ''kind'') (Literal (LString ''b'')) False,
           PropertySignature (KString ''y'') NumberKeyword False] []]"

definition kind_b_extra :: jsval where
  "kind_b_extra =
     JObj [(KString ''kind'', JStr ''b''), (KString ''y'', JNum (Finite 3)),
           (KString ''extra'', JNum (Finite 1))]"

text \<open>A transform from strings to booleans: a string decodes to whether it is non-empty,
  a boolean encodes to \<^verbatim>\<open>"x"\<close> or to the empty string.\<close>

definition non_empty_flag :: ast where
  "non_empty_flag =
     Transform StringKeyword BooleanKeyword
       (\<lambda>a options. Success (JBool (a \<noteq> JStr [])))
       (\<lambda>a options. Success (JStr (if a = JBool True then ''x'' else [])))"

text \<open>Three type literals that accept \<^verbatim>\<open>{a: 1, b: 2}\<close> with two, one and one unexpected
  keys, after a member that rejects it.\<close>

definition abc_members :: "ast list" where
  "abc_members =
     [StringKeyword,
      TypeLiteral [PropertySignature (KString ''c'') NumberKeyword True] [],
      TypeLiteral [PropertySignature (KString ''a'') NumberKeyword False] [],
      TypeLiteral [PropertySignature (KString ''b'') NumberKeyword False] []]"

definition ab_object :: jsval where
  "ab_object = JObj [(KString ''a'', JNum (Finite 1)), (KString ''b'', JNum (Finite 2))]"

text \<open>A tuple of a string and an empty tuple, and an input of four items whose second
  item is an array of one number.\<close>

definition pair_elements :: "element list" where
  "pair_elements = [Element StringKeyword False, Element (Tuple [] None False) False]"

definition four_items :: "jsval list" where
  "four_items = [JStr ''a'', JArr [JNum (Finite 7)], JNum (Finite 2), JNum (Finite 3)]"

text \<open>An input of three items whose first item is not a string.\<close>

definition three_items :: "jsval list" where
  "three_items = [JNum (Finite 1), JArr [JNum (Finite 7)], JNum (Finite 2)]"

text \<open>
  Two type literals that accept the input \<^verbatim>\<open>{a: {z: 1}, b: {z: 1}, c: 1}\<close> with a
  warning. The first one, \<^verbatim>\<open>{a: unknown, b: unknown}\<close>, does not declare \<^verbatim>\<open>c\<close>. The second
  one, \<^verbatim>\<open>{a: {q?: string}, b: {q?: string}, c: number}\<close>, declares the three keys and does
  not declare the key \<^verbatim>\<open>z\<close> of the objects below \<^verbatim>\<open>a\<close> and \<^verbatim>\<open>b\<close>.
\<close>

definition q_object :: ast where
  "q_object = TypeLiteral [PropertySignature (KString ''q'') StringKeyword True] []"

definition nested_members :: "ast list" where
  "nested_members =
     [TypeLiteral
        [PropertySignature (KString ''a'') UnknownKeyword False,
         PropertySignature (KString ''b'') UnknownKeyword False] [],
      TypeLiteral
        [PropertySignature (KString ''a'') q_object False,
         PropertySignature (KString ''b'') q_object False,
         PropertySignature (KString ''c'') NumberKeyword False] []]"

definition z_object :: jsval where
  "z_object = JObj [(KString ''z'', JNum (Finite 1))]"

definition nested_input :: jsval where
  "nested_input =
     JObj [(KString ''a'', z_object), (KString ''b'', z_object),
           (KString ''c'', JNum (Finite 1))]"




text \<open>The input \<^verbatim>\<open>{a: "x", extra: 1}\<close>.\<close>

definition a_extra :: jsval where
  "a_extra = JObj [(KString ''a'', JStr ''x''), (KString ''extra'', JNum (Finite 1))]"

section \<open>Properties\<close>

text \<open>The definitions that the evaluation of an example unfolds.\<close>

lemmas eval_defs = decode_def parserFor_def parse_options_def
  union_parse_def type_literal_parse_def tuple_parse_def fromRefinement_def strictEquals_def
  isUnknownObject_def hasOwnProperty_def getProperty_def ownKeys_def objectKeys_def
  getOwnPropertySymbols_def compute_output_def isNumber_def isString_def isBoolean_def
  handle_rest_element.simps handle_unexpected_indexes.simps Let_def
  emptyObject_def protoKey_def enumeratedBefore_def arrayIndex_def isDigit_def

subsection \<open>The own keys of the objects that the parser builds\<close>

text \<open>An assignment creates at most the property that it names.\<close>

lemma createProperty_keys: "fst ` set (createProperty kvs name v) = insert name (fst ` set kvs)"
  by (induction kvs name v rule: createProperty.induct) auto

lemma updateProperty_keys: "fst ` set (updateProperty kvs name v) = fst ` set kvs"
  by (induction kvs name v rule: updateProperty.induct) auto

lemma hasOwnProperty_objectValue:
  "hasOwnProperty (objectValue (kvs, p)) k = (k \<in> fst ` set kvs)"
  by (cases p) (simp_all add: hasOwnProperty_def map_of_eq_None_iff)

lemma setProperty_keys:
  "fst ` set (fst (setProperty object name v)) \<subseteq> insert name (fst ` set (fst object))"
  by (cases object) (auto simp: createProperty_keys updateProperty_keys)

lemma setProperty_other:
  "key \<noteq> k \<Longrightarrow> key \<notin> fst ` set (fst out) \<Longrightarrow> (key, b) \<notin> set (fst (setProperty out k v))"
  using setProperty_keys[of out k v] by force

subsection \<open>Warnings collected before a fatal error\<close>

text \<open>
  C1. Without \<^verbatim>\<open>allErrors\<close> the first fatal error is to be returned after the warnings
  collected so far. Where the fatal error is a missing required tuple element or a
  missing required key, the parser returns \<^verbatim>\<open>PE.failure(e)\<close> and the warnings are lost:
  in both examples the first position yields a warning (an unexpected index, an
  unexpected key, allowed by the options) and the second one is missing. Where the
  second position is present and invalid, the failure keeps the warning.
\<close>

theorem C1_missing_drops_warnings:
  "decode plain_host (Tuple [] None False) (JArr [JNum (Finite 1)]) (parse_options True False)
   = Warning [Index 0 [Unexpected (JNum (Finite 1))]] (JArr [])
   \<and> decode plain_host
     (Tuple [Element (Tuple [] None False) False, Element StringKeyword False] None False)
     (JArr [JArr [JNum (Finite 1)]])
     (parse_options True False)
   = Failure [Index 1 [Missing]]
   \<and> decode plain_host
     (Tuple [Element (Tuple [] None False) False, Element StringKeyword False] None False)
     (JArr [JArr [JNum (Finite 1)], JNum (Finite 5)])
     (parse_options True False)
   = Failure [Index 0 [Index 0 [Unexpected (JNum (Finite 1))]],
              Index 1 [Type StringKeyword (JNum (Finite 5))]]
   \<and> decode plain_host
     (TypeLiteral
        [PropertySignature (KString ''a'')
           (TypeLiteral [PropertySignature (KString ''b'') StringKeyword True] []) False,
         PropertySignature (KString ''c'') StringKeyword False] [])
     (JObj [(KString ''a'', JObj [(KString ''extra'', JNum (Finite 1))])])
     (parse_options True False)
   = Failure [Key (KString ''c'') [Missing]]
   \<and> decode plain_host
     (TypeLiteral
        [PropertySignature (KString ''a'')
           (TypeLiteral [PropertySignature (KString ''b'') StringKeyword True] []) False,
         PropertySignature (KString ''c'') StringKeyword False] [])
     (JObj [(KString ''a'', JObj [(KString ''extra'', JNum (Finite 1))]),
            (KString ''c'', JNum (Finite 5))])
     (parse_options True False)
   = Failure [Key (KString ''a'') [Key (KString ''extra'') [Unexpected (JNum (Finite 1))]],
              Key (KString ''c'') [Type StringKeyword (JNum (Finite 5))]]"
  by (simp add: eval_defs)

subsection \<open>The guard and the decoder\<close>

text \<open>On a schema without transforms the direction is never consulted: the guard and
  the decoder are the same parser.\<close>

lemma go_guard_decoder:
  fixes a :: ast and e :: element and p :: property_signature and i :: index_signature
    and pe :: parse_error and pr :: parse_result
  shows "transformFree a \<Longrightarrow> go h Guard a = go h Decoder a"
    and "transformFree_element e \<Longrightarrow> go_element h Guard e = go_element h Decoder e"
    and "transformFree_property_signature p \<Longrightarrow>
           go_property_signature h Guard p = go_property_signature h Decoder p"
    and "transformFree_index_signature i \<Longrightarrow>
           go_index_signature h Guard i = go_index_signature h Decoder i"
    and "pe = pe" and "pr = pr"
proof (induction a and e and p and i and pe and pr)
  case (TypeAlias typeParameters t)
  then have ps: "map (go h Guard) typeParameters = map (go h Decoder) typeParameters"
    and t: "go h Guard t = go h Decoder t"
    by (simp_all add: list_all_iff)
  show ?case by (simp only: go.simps ps t)
next
  case (Tuple elements rest isReadonly)
  then have els: "map (go_element h Guard) elements = map (go_element h Decoder) elements"
    by (simp add: list_all_iff)
  have "map_option (map_nonempty (go h Guard)) rest
          = map_option (map_nonempty (go h Decoder)) rest"
  proof (cases rest)
    case None
    then show ?thesis by simp
  next
    case (Some r)
    with Tuple.prems have "\<And>z. z \<in> set_nonempty r \<Longrightarrow> transformFree z"
      by (cases r) (auto simp: list_all_iff)
    with Tuple.IH(2) Some have "map_nonempty (go h Guard) r = map_nonempty (go h Decoder) r"
      by (intro nonempty.map_cong) auto
    with Some show ?thesis by simp
  qed
  with els show ?case by (simp only: go.simps)
next
  case (TypeLiteral propertySignatures indexSignatures)
  then have "map (go_property_signature h Guard) propertySignatures
               = map (go_property_signature h Decoder) propertySignatures"
    and "map (go_index_signature h Guard) indexSignatures
               = map (go_index_signature h Decoder) indexSignatures"
    by (simp_all add: list_all_iff)
  then show ?case by (simp only: go.simps)
next
  case (Union members)
  then have "map (go h Guard) members = map (go h Decoder) members"
    by (simp add: list_all_iff)
  then show ?case by (simp only: go.simps)
next
  case (Lazy name f)
  then show ?case by simp
qed simp_all

text \<open>
  C2, as the spec states it: for every AST and input the guard is to hold exactly when
  the decoder does not fail. On a \<^verbatim>\<open>Transform\<close> node the guard parses with the \<open>to\<close>
  side and the decoder with the \<open>from\<close> side: the transform from strings to booleans
  decodes \<^verbatim>\<open>"abc"\<close>, which the guard rejects, and the guard accepts \<^verbatim>\<open>true\<close>, which the
  decoder rejects.
\<close>

theorem C2_counterexample:
  "\<not> is_schema plain_host non_empty_flag (JStr ''abc'') (parse_options False False)
   \<and> decode plain_host non_empty_flag (JStr ''abc'') (parse_options False False)
       = Success (JBool True)
   \<and> is_schema plain_host non_empty_flag (JBool True) (parse_options False False)
   \<and> decode plain_host non_empty_flag (JBool True) (parse_options False False)
       = Failure [Type StringKeyword (JBool True)]"
  by (simp add: is_schema_def non_empty_flag_def isFailure_def transform_decoder_def
      flatMap_def eval_defs)

text \<open>
  C2, amended: for every AST without a \<^verbatim>\<open>Transform\<close> node and every input, the guard
  holds exactly when the decoder yields \<open>Success\<close> or \<open>Warning\<close>.
\<close>

theorem C2_guard_iff_decode:
  "transformFree S \<Longrightarrow>
   is_schema h S x options =
     (case decode h S x options of
        Success _ \<Rightarrow> True
      | Warning _ _ \<Rightarrow> True
      | Failure _ \<Rightarrow> False)"
  by (simp add: is_schema_def decode_def parserFor_def isFailure_def go_guard_decoder(1)
      split: parse_result.split)

theorem C2_guard_iff_decode_witness:
  "transformFree kind_union
   \<and> decode plain_host kind_union kind_b_extra (parse_options True True)
       = Warning [Key (KString ''extra'') [Unexpected (JNum (Finite 1))]]
           (JObj [(KString ''kind'', JStr ''b''), (KString ''y'', JNum (Finite 3))])
   \<and> is_schema plain_host kind_union kind_b_extra (parse_options True True)"
proof -
  have tf: "transformFree kind_union"
    by (simp add: kind_union_def)
  have d: "decode plain_host kind_union kind_b_extra (parse_options True True)
       = Warning [Key (KString ''extra'') [Unexpected (JNum (Finite 1))]]
           (JObj [(KString ''kind'', JStr ''b''), (KString ''y'', JNum (Finite 3))])"
    by (simp add: kind_union_def kind_b_extra_def eval_defs)
  from C2_guard_iff_decode [OF tf, of plain_host kind_b_extra "parse_options True True"] d
  have "is_schema plain_host kind_union kind_b_extra (parse_options True True)"
    by simp
  with tf d show ?thesis by simp
qed

subsection \<open>The post-rest loop of a tuple\<close>

text \<open>
  C3. For a tuple whose rest has a tail of \<open>m\<close> elements, the final \<open>m\<close> positions of the
  input are to be parsed with the tail in order, each at its absolute index. The loop
  adds \<open>j\<close> to \<open>i\<close> on every round (\<^verbatim>\<open>i += j\<close>), so from the third tail element on the
  index is too large: the schema \<^verbatim>\<open>[...number[], string, string, string]\<close> on the input
  \<^verbatim>\<open>["a", "b", "c"]\<close> reads the third tail element at index 3 and reports it missing,
  where every position is present and valid. A tail of two elements is read at the right
  indices.
\<close>

theorem C3_post_rest_index_drift:
  "decode plain_host
     (Tuple [] (Some (NonEmpty NumberKeyword [StringKeyword, StringKeyword, StringKeyword])) True)
     (JArr [JStr ''a'', JStr ''b'', JStr ''c''])
     (parse_options False False)
   = Failure [Index 3 [Missing]]
   \<and> decode plain_host
     (Tuple [] (Some (NonEmpty NumberKeyword [StringKeyword, StringKeyword])) True)
     (JArr [JStr ''a'', JStr ''b''])
     (parse_options False False)
   = Success (JArr [JStr ''a'', JStr ''b''])"
  by (simp add: eval_defs)

subsection \<open>Every position under \<^verbatim>\<open>allErrors\<close>\<close>

text \<open>
  C4. With \<^verbatim>\<open>allErrors\<close> a tuple parse is to visit every position. A missing element of
  the post-rest tail returns at once, whatever the options: on the empty input the
  schema \<^verbatim>\<open>[...unknown[], string, string]\<close> reports position 0 only, where the loop over
  the elements reports every missing position of \<^verbatim>\<open>[string, string]\<close>.
\<close>

theorem C4_post_rest_missing_returns:
  "decode plain_host
     (Tuple [] (Some (NonEmpty UnknownKeyword [StringKeyword, StringKeyword])) False)
     (JArr []) (parse_options False True)
   = Failure [Index 0 [Missing]]
   \<and> decode plain_host
     (Tuple [Element StringKeyword False, Element StringKeyword False] None False)
     (JArr []) (parse_options False True)
   = Failure [Index 0 [Missing], Index 1 [Missing]]"
  by (simp add: eval_defs)

subsection \<open>The branches of a union\<close>

text \<open>\<open>arg_min_list\<close> returns the first of the least elements of a list; the loop of
  the union computes it over the warnings, one candidate at a time.\<close>

lemma arg_min_list_merge:
  fixes f :: "'a \<Rightarrow> nat"
  shows "arg_min_list f (x # y # zs) = arg_min_list f ((if f y < f x then y else x) # zs)"
  by (cases zs) (auto simp: Let_def)

lemma arg_min_list_first:
  fixes f :: "'a \<Rightarrow> nat"
  shows "xs \<noteq> [] \<Longrightarrow>
    \<exists>k<length xs. arg_min_list f xs = xs ! k \<and> (\<forall>j<length xs. f (xs ! k) \<le> f (xs ! j))
       \<and> (\<forall>j<k. f (xs ! k) < f (xs ! j))"
proof (induction f xs rule: arg_min_list.induct)
  case (1 f x)
  then show ?case by simp
next
  case (2 f x y zs)
  then obtain k where k: "k < length (y # zs)" "arg_min_list f (y # zs) = (y # zs) ! k"
    "\<forall>j<length (y # zs). f ((y # zs) ! k) \<le> f ((y # zs) ! j)"
    "\<forall>j<k. f ((y # zs) ! k) < f ((y # zs) ! j)"
    by auto
  show ?case
  proof (cases "f x \<le> f ((y # zs) ! k)")
    case True
    have "\<forall>j<length (x # y # zs). f x \<le> f ((x # y # zs) ! j)"
    proof (intro allI impI)
      fix j assume "j < length (x # y # zs)"
      then show "f x \<le> f ((x # y # zs) ! j)"
        using True k(3) by (cases j) (auto intro: order_trans)
    qed
    with True k(2) show ?thesis
      by (intro exI[of _ 0]) (simp add: Let_def)
  next
    case False
    have a: "\<forall>j<length (x # y # zs). f ((y # zs) ! k) \<le> f ((x # y # zs) ! j)"
    proof (intro allI impI)
      fix j assume "j < length (x # y # zs)"
      then show "f ((y # zs) ! k) \<le> f ((x # y # zs) ! j)"
        using False k(3) by (cases j) auto
    qed
    have b: "\<forall>j<Suc k. f ((y # zs) ! k) < f ((x # y # zs) ! j)"
    proof (intro allI impI)
      fix j assume "j < Suc k"
      then show "f ((y # zs) ! k) < f ((x # y # zs) ! j)"
        using False k(4) by (cases j) auto
    qed
    from False k(1,2) a b show ?thesis
      by (intro exI[of _ "Suc k"]) (simp add: Let_def)
  qed
qed simp

text \<open>\<^verbatim>\<open>hasUnexpectedError\<close> holds of the errors that the measure counts.\<close>

lemma holdsUnexpected_some: "holdsUnexpected es = list_ex isUnexpected es"
proof (induction es)
  case Nil
  then show ?case by simp
next
  case (Cons e es)
  then show ?case by (cases e) simp_all
qed

lemma hasUnexpectedError_reports: "hasUnexpectedError = reportsUnexpected"
proof
  fix e
  show "hasUnexpectedError e = reportsUnexpected e"
    by (cases e) (simp_all add: holdsUnexpected_some)
qed

lemma compute_best_output_success:
  "k < length ps \<Longrightarrow> (ps ! k) u options = Success a \<Longrightarrow>
   (\<forall>j<k. \<not> isSuccess ((ps ! j) u options)) \<Longrightarrow>
   compute_best_output ps u options es out = Inl (Success a)"
proof (induction ps arbitrary: k es out)
  case Nil
  then show ?case by simp
next
  case (Cons p ps)
  show ?case
  proof (cases k)
    case 0
    with Cons.prems show ?thesis by simp
  next
    case (Suc k')
    with Cons.prems have "\<not> isSuccess (p u options)" by auto
    moreover from Suc Cons.prems have "k' < length ps" "(ps ! k') u options = Success a"
      "\<forall>j<k'. \<not> isSuccess ((ps ! j) u options)" by auto
    ultimately show ?thesis
      using Cons.IH[of k'] by (cases "p u options") auto
  qed
qed

lemma compute_best_output_no_success:
  "(\<forall>p\<in>set ps. \<not> isSuccess (p u options)) \<Longrightarrow>
   compute_best_output ps u options es out =
     Inr (es @ membersOf (map (\<lambda>p. p u options) ps),
          (case candidates out (warningsOf (map (\<lambda>p. p u options) ps)) of
             [] \<Rightarrow> None
           | c # cs \<Rightarrow> Some (arg_min_list (topLevelUnexpected \<circ> fst) (c # cs))))"
proof (induction ps arbitrary: es out)
  case Nil
  then show ?case by (cases out) (simp_all add: candidates_def)
next
  case (Cons p ps)
  then have IH: "\<And>es out. compute_best_output ps u options es out =
     Inr (es @ membersOf (map (\<lambda>p. p u options) ps),
          (case candidates out (warningsOf (map (\<lambda>p. p u options) ps)) of
             [] \<Rightarrow> None
           | c # cs \<Rightarrow> Some (arg_min_list (topLevelUnexpected \<circ> fst) (c # cs))))"
    by simp
  show ?case
  proof (cases "p u options")
    case (Failure l)
    then show ?thesis by (simp add: IH)
  next
    case (Success a)
    with Cons.prems show ?thesis by simp
  next
    case (Warning l a)
    show ?thesis
    proof (cases out)
      case None
      with Warning show ?thesis by (simp add: IH candidates_def)
    next
      case (Some c)
      obtain cl ca where c: "c = (cl, ca)" by (cases c)
      from arg_min_list_merge[of "topLevelUnexpected \<circ> fst" c "(l, a)"
          "warningsOf (map (\<lambda>p. p u options) ps)"]
      show ?thesis using Warning Some c
        by (simp add: IH candidates_def topLevelUnexpected_def hasUnexpectedError_reports)
    qed
  qed
qed

text \<open>
  C5, as stated: among the branches that yield a warning, the union is to return the
  candidate with the fewest unexpected-key and unexpected-index diagnostics, the first of
  them when several have as few. On the input \<^verbatim>\<open>{a: {z: 1}, b: {z: 1}, c: 1}\<close>, with
  \<^verbatim>\<open>isUnexpectedAllowed\<close>, the first branch yields a warning with one unexpected key and the
  second branch a warning with two unexpected keys, both below a declared key; the union
  returns the warning of the second branch.
\<close>

theorem C5_counterexample:
  "map (\<lambda>t. decode plain_host t nested_input (parse_options True False)) nested_members
     = [Warning [Key (KString ''c'') [Unexpected (JNum (Finite 1))]]
          (JObj [(KString ''a'', z_object), (KString ''b'', z_object)]),
        Warning
          [Key (KString ''a'') [Key (KString ''z'') [Unexpected (JNum (Finite 1))]],
           Key (KString ''b'') [Key (KString ''z'') [Unexpected (JNum (Finite 1))]]]
          (JObj [(KString ''a'', JObj []), (KString ''b'', JObj []),
                 (KString ''c'', JNum (Finite 1))])]
   \<and> unexpectedDiagnosticsOf [Key (KString ''c'') [Unexpected (JNum (Finite 1))]] = 1
   \<and> unexpectedDiagnosticsOf
        [Key (KString ''a'') [Key (KString ''z'') [Unexpected (JNum (Finite 1))]],
         Key (KString ''b'') [Key (KString ''z'') [Unexpected (JNum (Finite 1))]]] = 2
   \<and> decode plain_host (Union nested_members) nested_input (parse_options True False)
     = Warning
         [Key (KString ''a'') [Key (KString ''z'') [Unexpected (JNum (Finite 1))]],
          Key (KString ''b'') [Key (KString ''z'') [Unexpected (JNum (Finite 1))]]]
         (JObj [(KString ''a'', JObj []), (KString ''b'', JObj []),
                (KString ''c'', JNum (Finite 1))])"
  by (simp add: nested_members_def nested_input_def z_object_def q_object_def
      unexpectedDiagnosticsOf_def eval_defs)

text \<open>
  C5, amended. Let \<open>rs\<close> be the results of the branches of a union on an input, in
  declaration order. If a branch succeeds, the union returns the first success.
  Otherwise, if a branch yields a warning, the union returns the warning with the fewest
  errors, among the errors of the warning itself, that are a \<open>Key\<close> or an \<open>Index\<close> error
  with an \<open>Unexpected\<close> error among its own children, the first of them when several
  have as few; an unexpected key or index that is reported below another key or index is
  not counted. Otherwise, if a branch failed, it returns the failure of the branches'
  errors, each wrapped as a member. Otherwise (no branch) it fails with
  \<open>Type(neverKeyword, input)\<close>.
\<close>

theorem C5_union_branches:
  "rs = map (\<lambda>t. go h as t u options) ts \<Longrightarrow>
   (\<forall>k<length rs. isSuccess (rs ! k) \<and> (\<forall>j<k. \<not> isSuccess (rs ! j)) \<longrightarrow>
      go h as (Union ts) u options = rs ! k)
   \<and> ((\<forall>r\<in>set rs. \<not> isSuccess r) \<and> warningsOf rs \<noteq> [] \<longrightarrow>
      (\<exists>k<length (warningsOf rs).
         go h as (Union ts) u options
           = Warning (fst (warningsOf rs ! k)) (snd (warningsOf rs ! k))
         \<and> (\<forall>j<length (warningsOf rs).
               topLevelUnexpected (fst (warningsOf rs ! k))
                 \<le> topLevelUnexpected (fst (warningsOf rs ! j)))
         \<and> (\<forall>j<k. topLevelUnexpected (fst (warningsOf rs ! k))
                 < topLevelUnexpected (fst (warningsOf rs ! j)))))
   \<and> ((\<forall>r\<in>set rs. \<not> isSuccess r) \<and> warningsOf rs = [] \<and> membersOf rs \<noteq> [] \<longrightarrow>
      go h as (Union ts) u options = Failure (membersOf rs))
   \<and> ((\<forall>r\<in>set rs. \<not> isSuccess r) \<and> warningsOf rs = [] \<and> membersOf rs = [] \<longrightarrow>
      rs = [] \<and> go h as (Union ts) u options = Failure [Type NeverKeyword u])"
proof -
  assume rs: "rs = map (\<lambda>t. go h as t u options) ts"
  define ps where "ps = map (go h as) ts"
  have rs_ps: "rs = map (\<lambda>p. p u options) ps"
    by (simp add: rs ps_def comp_def)
  note go_union = ps_def[symmetric]
  have first: "\<forall>k<length rs. isSuccess (rs ! k) \<and> (\<forall>j<k. \<not> isSuccess (rs ! j)) \<longrightarrow>
      go h as (Union ts) u options = rs ! k"
  proof (intro allI impI)
    fix k
    assume k: "k < length rs" and s: "isSuccess (rs ! k) \<and> (\<forall>j<k. \<not> isSuccess (rs ! j))"
    then obtain a where a: "rs ! k = Success a"
      by (cases "rs ! k") auto
    from k a s have "compute_best_output ps u options [] None = Inl (Success a)"
      by (intro compute_best_output_success[of k]) (auto simp: rs_ps)
    with a show "go h as (Union ts) u options = rs ! k"
      by (simp add: go_union union_parse_def)
  qed
  have loop: "(\<forall>r\<in>set rs. \<not> isSuccess r) \<Longrightarrow>
      compute_best_output ps u options [] None =
        Inr (membersOf rs,
             (case warningsOf rs of
                [] \<Rightarrow> None
              | c # cs \<Rightarrow> Some (arg_min_list (topLevelUnexpected \<circ> fst) (c # cs))))"
    using compute_best_output_no_success[of ps u options "[]" None]
    by (simp add: rs_ps candidates_def)
  have best: "(\<forall>r\<in>set rs. \<not> isSuccess r) \<and> warningsOf rs \<noteq> [] \<longrightarrow>
      (\<exists>k<length (warningsOf rs).
         go h as (Union ts) u options
           = Warning (fst (warningsOf rs ! k)) (snd (warningsOf rs ! k))
         \<and> (\<forall>j<length (warningsOf rs).
               topLevelUnexpected (fst (warningsOf rs ! k))
                 \<le> topLevelUnexpected (fst (warningsOf rs ! j)))
         \<and> (\<forall>j<k. topLevelUnexpected (fst (warningsOf rs ! k))
                 < topLevelUnexpected (fst (warningsOf rs ! j))))"
  proof
    assume h: "(\<forall>r\<in>set rs. \<not> isSuccess r) \<and> warningsOf rs \<noteq> []"
    then have ne: "warningsOf rs \<noteq> []" by simp
    from arg_min_list_first[OF ne, of "topLevelUnexpected \<circ> fst"]
    obtain k where k: "k < length (warningsOf rs)"
      "arg_min_list (topLevelUnexpected \<circ> fst) (warningsOf rs) = warningsOf rs ! k"
      "\<forall>j<length (warningsOf rs).
          topLevelUnexpected (fst (warningsOf rs ! k)) \<le> topLevelUnexpected (fst (warningsOf rs ! j))"
      "\<forall>j<k. topLevelUnexpected (fst (warningsOf rs ! k)) < topLevelUnexpected (fst (warningsOf rs ! j))"
      by auto
    from h loop ne k(2) have "go h as (Union ts) u options
           = Warning (fst (warningsOf rs ! k)) (snd (warningsOf rs ! k))"
      by (cases "warningsOf rs") (auto simp: go_union union_parse_def split: prod.split)
    with k show "\<exists>k<length (warningsOf rs).
         go h as (Union ts) u options
           = Warning (fst (warningsOf rs ! k)) (snd (warningsOf rs ! k))
         \<and> (\<forall>j<length (warningsOf rs).
               topLevelUnexpected (fst (warningsOf rs ! k))
                 \<le> topLevelUnexpected (fst (warningsOf rs ! j)))
         \<and> (\<forall>j<k. topLevelUnexpected (fst (warningsOf rs ! k))
                 < topLevelUnexpected (fst (warningsOf rs ! j)))"
      by blast
  qed
  have members: "(\<forall>r\<in>set rs. \<not> isSuccess r) \<and> warningsOf rs = [] \<and> membersOf rs \<noteq> [] \<longrightarrow>
      go h as (Union ts) u options = Failure (membersOf rs)"
    using loop by (auto simp: go_union union_parse_def)
  have empty: "(\<forall>r\<in>set rs. \<not> isSuccess r) \<and> warningsOf rs = [] \<and> membersOf rs = [] \<longrightarrow>
      rs = [] \<and> go h as (Union ts) u options = Failure [Type NeverKeyword u]"
  proof
    assume h: "(\<forall>r\<in>set rs. \<not> isSuccess r) \<and> warningsOf rs = [] \<and> membersOf rs = []"
    have "rs = []"
    proof (cases rs)
      case Nil
      then show ?thesis .
    next
      case (Cons r rs')
      with h show ?thesis by (cases r) auto
    qed
    moreover from h loop have "go h as (Union ts) u options = Failure [Type NeverKeyword u]"
      by (auto simp: go_union union_parse_def)
    ultimately show "rs = [] \<and> go h as (Union ts) u options = Failure [Type NeverKeyword u]"
      by simp
  qed
  from first best members empty show ?thesis by blast
qed

theorem C5_union_branches_witness:
  "go plain_host Decoder (Union [StringKeyword, NumberKeyword, UnknownKeyword])
      (JNum (Finite 1)) (parse_options False False) = Success (JNum (Finite 1))
   \<and> go plain_host Decoder (Union abc_members) ab_object (parse_options True False)
       = Warning [Key (KString ''b'') [Unexpected (JNum (Finite 2))]]
           (JObj [(KString ''a'', JNum (Finite 1))])
   \<and> go plain_host Decoder (Union [StringKeyword, NumberKeyword]) JNull
        (parse_options False False)
       = Failure [Member [Type StringKeyword JNull], Member [Type NumberKeyword JNull]]
   \<and> go plain_host Decoder (Union []) JNull (parse_options False False)
       = Failure [Type NeverKeyword JNull]"
proof -
  have r1: "[Failure [Type StringKeyword (JNum (Finite 1))], Success (JNum (Finite 1)),
             Success (JNum (Finite 1))]
      = map (\<lambda>t. go plain_host Decoder t (JNum (Finite 1)) (parse_options False False))
          [StringKeyword, NumberKeyword, UnknownKeyword]"
    by (simp add: fromRefinement_def isString_def isNumber_def)
  have c1: "go plain_host Decoder (Union [StringKeyword, NumberKeyword, UnknownKeyword])
      (JNum (Finite 1)) (parse_options False False) = Success (JNum (Finite 1))"
    using C5_union_branches [OF r1] by (auto simp: less_Suc_eq numeral_3_eq_3)
  have r2: "[Failure [Type StringKeyword ab_object],
             Warning [Key (KString ''a'') [Unexpected (JNum (Finite 1))],
                      Key (KString ''b'') [Unexpected (JNum (Finite 2))]] (JObj []),
             Warning [Key (KString ''b'') [Unexpected (JNum (Finite 2))]]
               (JObj [(KString ''a'', JNum (Finite 1))]),
             Warning [Key (KString ''a'') [Unexpected (JNum (Finite 1))]]
               (JObj [(KString ''b'', JNum (Finite 2))])]
      = map (\<lambda>t. go plain_host Decoder t ab_object (parse_options True False)) abc_members"
    by (simp add: abc_members_def ab_object_def eval_defs)
  have c2: "go plain_host Decoder (Union abc_members) ab_object (parse_options True False)
       = Warning [Key (KString ''b'') [Unexpected (JNum (Finite 2))]]
           (JObj [(KString ''a'', JNum (Finite 1))])"
    using C5_union_branches [OF r2]
    by (auto simp: less_Suc_eq numeral_3_eq_3 topLevelUnexpected_def)
  have r3: "[Failure [Type StringKeyword JNull], Failure [Type NumberKeyword JNull]]
      = map (\<lambda>t. go plain_host Decoder t JNull (parse_options False False))
          [StringKeyword, NumberKeyword]"
    by (simp add: fromRefinement_def isString_def isNumber_def)
  have c3: "go plain_host Decoder (Union [StringKeyword, NumberKeyword]) JNull
        (parse_options False False)
       = Failure [Member [Type StringKeyword JNull], Member [Type NumberKeyword JNull]]"
    using C5_union_branches [OF r3] by simp
  have r4: "[] = map (\<lambda>t. go plain_host Decoder t JNull (parse_options False False)) []"
    by simp
  have c4: "go plain_host Decoder (Union []) JNull (parse_options False False)
       = Failure [Type NeverKeyword JNull]"
    using C5_union_branches [OF r4] by simp
  from c1 c2 c3 c4 show ?thesis by simp
qed

subsection \<open>The union of the third scenario\<close>

text \<open>
  C6, as the spec states it: with \<^verbatim>\<open>isUnexpectedAllowed = false\<close> and \<^verbatim>\<open>allErrors = true\<close>
  the decoder is to return the warning of branch \<open>b\<close>. It does not: the unexpected key is
  fatal in branch \<open>b\<close> as well.
\<close>

theorem C6_counterexample:
  "decode plain_host kind_union kind_b_extra (parse_options False True)
   \<noteq> Warning [Key (KString ''extra'') [Unexpected (JNum (Finite 1))]]
       (JObj [(KString ''kind'', JStr ''b''), (KString ''y'', JNum (Finite 3))])"
  by (simp add: kind_union_def kind_b_extra_def eval_defs)

text \<open>
  C6, amended: with \<^verbatim>\<open>isUnexpectedAllowed = true\<close> (and \<^verbatim>\<open>allErrors = true\<close>) the decoder
  returns the warning of branch \<open>b\<close>, with the value \<^verbatim>\<open>{kind: "b", y: 3}\<close>; with
  \<^verbatim>\<open>isUnexpectedAllowed = false\<close> both branches fail and the result is the failure of
  the two members.
\<close>

theorem C6_union_scenario:
  "decode plain_host kind_union kind_b_extra (parse_options True True)
   = Warning [Key (KString ''extra'') [Unexpected (JNum (Finite 1))]]
       (JObj [(KString ''kind'', JStr ''b''), (KString ''y'', JNum (Finite 3))])
   \<and> decode plain_host kind_union kind_b_extra (parse_options False True)
   = Failure
       [Member
          [Key (KString ''kind'') [Equal (JStr ''a'') (JStr ''b'')],
           Key (KString ''x'') [Missing],
           Key (KString ''y'') [Unexpected (JNum (Finite 3))],
           Key (KString ''extra'') [Unexpected (JNum (Finite 1))]],
        Member [Key (KString ''extra'') [Unexpected (JNum (Finite 1))]]]"
  by (simp add: kind_union_def kind_b_extra_def eval_defs)

subsection \<open>Unexpected keys of a type literal\<close>





lemma handle_property_signatures_returns_failure:
  "handle_property_signatures pps input options st = Inl r \<Longrightarrow> isFailure r"
proof (induction pps arbitrary: st)
  case Nil
  then show ?case by simp
next
  case (Cons pp pps)
  obtain ps parser where pp: "pp = (ps, parser)" by (cases pp)
  obtain out ek es l where st: "st = (out, ek, es, l)" by (cases st)
  from Cons.prems show ?case
    by (auto simp: pp st Let_def isFailure_def dest!: Cons.IH
        split: if_splits parse_result.splits)
qed

lemma zip_names:
  "map (ps_name \<circ> fst) (zip pss (map f pss)) = map ps_name pss"
  by (induction pss) simp_all







subsection \<open>The \<^verbatim>\<open>BigIntKeyword\<close> node\<close>

text \<open>
  C8. In every direction the parser of \<^verbatim>\<open>BigIntKeyword\<close> returns a bigint unchanged;
  it coerces a string, a number or a boolean with \<^verbatim>\<open>BigInt(u)\<close>, and where that throws
  it fails with \<open>Transform(primitive, bigInt, input)\<close>; on any other input it fails with
  the bare \<open>Type(primitive, input)\<close>; \<open>primitive\<close> is the union of string, number and
  boolean.
\<close>

theorem C8_bigint_keyword:
  "parserFor h BigIntKeyword as (JBigInt n) options = Success (JBigInt n)
   \<and> (isString u \<or> isNumber u \<or> isBoolean u \<longrightarrow>
        (\<forall>m. BigInt h u = Some m \<longrightarrow>
           parserFor h BigIntKeyword as u options = Success (JBigInt m))
        \<and> (BigInt h u = None \<longrightarrow>
           parserFor h BigIntKeyword as u options
             = Failure [TransformError primitive BigIntKeyword u]))
   \<and> (\<not> isBigInt u \<and> \<not> isString u \<and> \<not> isNumber u \<and> \<not> isBoolean u \<longrightarrow>
        parserFor h BigIntKeyword as u options = Failure [Type primitive u])
   \<and> primitive = Union [StringKeyword, NumberKeyword, BooleanKeyword]"
  by (cases u) (simp_all add: parserFor_def primitive_def isBigInt_def isString_def
      isNumber_def isBoolean_def)

theorem C8_bigint_keyword_witness:
  "isBoolean (JBool True) \<and> BigInt plain_host (JBool True) = Some 1
   \<and> parserFor plain_host BigIntKeyword Decoder (JBool True) (parse_options False False)
       = Success (JBigInt 1)
   \<and> isNumber (JNum NaN) \<and> BigInt plain_host (JNum NaN) = None
   \<and> parserFor plain_host BigIntKeyword Decoder (JNum NaN)
         (parse_options False False)
       = Failure [TransformError primitive BigIntKeyword (JNum NaN)]
   \<and> \<not> isBigInt JNull \<and> \<not> isString JNull \<and> \<not> isNumber JNull \<and> \<not> isBoolean JNull
   \<and> parserFor plain_host BigIntKeyword Decoder JNull (parse_options False False)
       = Failure [Type primitive JNull]"
proof -
  have b: "BigInt plain_host (JBool True) = Some 1"
    by (simp add: plain_host_def hostBigInt_def)
  have n: "BigInt plain_host (JNum NaN) = None"
    by (simp add: plain_host_def hostBigInt_def)
  show ?thesis
    using C8_bigint_keyword [of plain_host Decoder 0 "parse_options False False" "JBool True"]
      C8_bigint_keyword [of plain_host Decoder 0 "parse_options False False"
        "JNum NaN"]
      C8_bigint_keyword [of plain_host Decoder 0 "parse_options False False" JNull]
      b n
    by (simp add: isBigInt_def isString_def isNumber_def isBoolean_def)
qed

subsection \<open>Keys that no index signature matches\<close>

text \<open>A key that no loop visits is neither written to the output nor reported: each
  loop keeps the errors and the output free of it.\<close>

lemma mentionsKey_append [simp]:
  "mentionsKey key (es @ es') = (mentionsKey key es \<or> mentionsKey key es')"
  by (simp add: mentionsKey_def list_ex_iff) blast

lemma mentionsKey_simps [simp]:
  "mentionsKey key [] = False"
  "mentionsKey key (e # es) = (atKey key e \<or> mentionsKey key es)"
  by (simp_all add: mentionsKey_def)

lemma handle_property_signatures_ignores:
  "key \<notin> set (map (ps_name \<circ> fst) pps) \<Longrightarrow> \<not> mentionsKey key es \<Longrightarrow>
   key \<notin> fst ` set (fst out) \<Longrightarrow>
   (case handle_property_signatures pps input options (out, ek, es, l) of
      Inl r \<Rightarrow> \<not> mentionsKey key (errorsOf r)
    | Inr (out', ek', es', l') \<Rightarrow> \<not> mentionsKey key es' \<and> key \<notin> fst ` set (fst out'))"
proof (induction pps arbitrary: out ek es l)
  case Nil
  then show ?case by simp
next
  case (Cons pp pps)
  obtain ps parser where pp: "pp = (ps, parser)" by (cases pp)
  from Cons.prems have k: "key \<noteq> ps_name ps" "key \<notin> set (map (ps_name \<circ> fst) pps)"
    by (auto simp: pp)
  note IH = Cons.IH[OF k(2)]
  from Cons.prems(2,3) k(1) show ?case
    by (auto simp: pp Let_def setProperty_other intro!: IH split: parse_result.splits)
qed

lemma handle_keys_ignores:
  "key \<notin> set keys \<Longrightarrow> \<not> mentionsKey key es \<Longrightarrow> key \<notin> fst ` set (fst out) \<Longrightarrow>
   (case handle_keys parameter type keys input options (out, ek, es, l) of
      Inl r \<Rightarrow> \<not> mentionsKey key (errorsOf r)
    | Inr (out', ek', es', l') \<Rightarrow> \<not> mentionsKey key es' \<and> key \<notin> fst ` set (fst out'))"
proof (induction keys arbitrary: out ek es l)
  case Nil
  then show ?case by simp
next
  case (Cons k keys)
  from Cons.prems have k: "key \<noteq> k" "key \<notin> set keys" by auto
  note IH = Cons.IH[OF k(2)]
  from Cons.prems(2,3) k(1) show ?case
    by (auto simp: Let_def setProperty_other intro!: IH split: parse_result.splits)
qed

lemma handle_index_signatures_ignores:
  "\<forall>s\<in>set sigs. key \<notin> set (getKeysForIndexSignature h input (is_parameter (fst s))) \<Longrightarrow>
   \<not> mentionsKey key es \<Longrightarrow> key \<notin> fst ` set (fst out) \<Longrightarrow>
   (case handle_index_signatures h sigs input options (out, ek, es, l) of
      Inl r \<Rightarrow> \<not> mentionsKey key (errorsOf r)
    | Inr (out', ek', es', l') \<Rightarrow> \<not> mentionsKey key es' \<and> key \<notin> fst ` set (fst out'))"
proof (induction sigs arbitrary: out ek es l)
  case Nil
  then show ?case by simp
next
  case (Cons s sigs)
  obtain sig parameter type where s: "s = (sig, parameter, type)" by (cases s)
  from Cons.prems(1) have k: "key \<notin> set (getKeysForIndexSignature h input (is_parameter sig))"
    and rest: "\<forall>s\<in>set sigs. key \<notin> set (getKeysForIndexSignature h input (is_parameter (fst s)))"
    by (auto simp: s)
  note keys = handle_keys_ignores[OF k Cons.prems(2,3), of parameter type input options ek l]
  show ?case
  proof (cases "handle_keys parameter type
      (getKeysForIndexSignature h input (is_parameter sig)) input options (out, ek, es, l)")
    case (Inl r)
    with keys show ?thesis by (simp add: s)
  next
    case (Inr st)
    obtain out' ek' es' l' where st: "st = (out', ek', es', l')" by (cases st)
    from keys Inr st have "\<not> mentionsKey key es'" "key \<notin> fst ` set (fst out')"
      by simp_all
    from Cons.IH[OF rest this, of ek' l'] Inr st show ?thesis by (simp add: s)
  qed
qed

lemma handle_keys_returns_failure:
  "handle_keys parameter type keys input options st = Inl r \<Longrightarrow> isFailure r"
proof (induction keys arbitrary: st)
  case Nil
  then show ?case by simp
next
  case (Cons k keys)
  obtain out ek es l where st: "st = (out, ek, es, l)" by (cases st)
  from Cons.prems show ?case
    by (auto simp: st Let_def isFailure_def dest!: Cons.IH
        split: if_splits parse_result.splits)
qed

lemma handle_index_signatures_returns_failure:
  "handle_index_signatures h sigs input options st = Inl r \<Longrightarrow> isFailure r"
proof (induction sigs arbitrary: st)
  case Nil
  then show ?case by simp
next
  case (Cons s sigs)
  obtain sig parameter type where s: "s = (sig, parameter, type)" by (cases s)
  from Cons.prems show ?case
    by (auto simp: s Let_def dest: Cons.IH handle_keys_returns_failure split: sum.splits)
qed

lemma compute_output_parts:
  "errorsOf (compute_output es l v) = es"
  "right (compute_output es l v) = v \<or> right (compute_output es l v) = JUndefined"
  by (simp_all add: compute_output_def)

text \<open>
  C9. For a type literal with at least one index signature, a key that is not a declared
  property name and is not among the keys that any index signature enumerates is ignored:
  whatever the options, no error of the result is at that key, and the output object
  does not own it.
\<close>

theorem C9_index_signatures_ignore:
  "indexSignatures \<noteq> [] \<Longrightarrow> key \<notin> set (map ps_name propertySignatures) \<Longrightarrow>
   (\<forall>sig\<in>set indexSignatures.
      key \<notin> set (getKeysForIndexSignature h input (is_parameter sig))) \<Longrightarrow>
   r = go h as (TypeLiteral propertySignatures indexSignatures) input options \<Longrightarrow>
   \<not> mentionsKey key (errorsOf r) \<and> \<not> hasOwnProperty (right r) key"
proof -
  assume ne: "indexSignatures \<noteq> []"
    and name: "key \<notin> set (map ps_name propertySignatures)"
    and kind: "\<forall>sig\<in>set indexSignatures.
      key \<notin> set (getKeysForIndexSignature h input (is_parameter sig))"
    and r: "r = go h as (TypeLiteral propertySignatures indexSignatures) input options"
  define pps where
    "pps = zip propertySignatures (map (go_property_signature h as) propertySignatures)"
  define sigs where
    "sigs = zip indexSignatures (map (go_index_signature h as) indexSignatures)"
  from name have name': "key \<notin> set (map (ps_name \<circ> fst) pps)"
    by (simp add: pps_def zip_names)
  have kind': "\<forall>s\<in>set sigs. key \<notin> set (getKeysForIndexSignature h input (is_parameter (fst s)))"
    using kind by (auto simp: sigs_def dest: set_zip_leftD)
  have undefined: "\<not> hasOwnProperty JUndefined key"
    by (simp add: hasOwnProperty_def)
  have object: "key \<notin> fst ` set (fst out) \<Longrightarrow> \<not> hasOwnProperty (objectValue out) key" for out
    by (cases out) (simp add: hasOwnProperty_objectValue)
  have final: "\<not> mentionsKey key es \<Longrightarrow> key \<notin> fst ` set (fst out) \<Longrightarrow>
      \<not> mentionsKey key (errorsOf (compute_output es l (objectValue out)))
      \<and> \<not> hasOwnProperty (right (compute_output es l (objectValue out))) key" for es out l
    using compute_output_parts[of es l "objectValue out"] undefined object[of out] by auto
  have failure: "\<not> mentionsKey key (errorsOf r') \<Longrightarrow> isFailure r' \<Longrightarrow>
      \<not> mentionsKey key (errorsOf r') \<and> \<not> hasOwnProperty (right r') key" for r'
    using undefined by (cases r') (simp_all add: isFailure_def)
  from ne have eq: "r = type_literal_parse h propertySignatures indexSignatures
      (map (go_property_signature h as) propertySignatures)
      (map (go_index_signature h as) indexSignatures) input options"
    by (simp add: r)
  show ?thesis
  proof (cases "isUnknownObject input")
    case False
    then show ?thesis
      using undefined by (simp add: eq type_literal_parse_def)
  next
    case True
    note props = handle_property_signatures_ignores[OF name', of "[]" emptyObject input options
        emptyObject False]
    show ?thesis
    proof (cases "handle_property_signatures pps input options
        (emptyObject, emptyObject, [], False)")
      case (Inl r')
      with props have "\<not> mentionsKey key (errorsOf r')" by (simp add: emptyObject_def)
      moreover from Inl have "isFailure r'"
        by (rule handle_property_signatures_returns_failure)
      moreover from Inl True have "r = r'"
        by (simp add: eq type_literal_parse_def pps_def)
      ultimately show ?thesis using failure by simp
    next
      case (Inr st)
      obtain out ek es l where st: "st = (out, ek, es, l)" by (cases st)
      from props Inr st have clean: "\<not> mentionsKey key es" "key \<notin> fst ` set (fst out)"
        by (simp_all add: emptyObject_def)
      note sigs = handle_index_signatures_ignores[OF kind' clean, of options ek l]
      from ne Inr True st have r_eq: "r = (case handle_index_signatures h sigs input options
            (out, ek, es, l) of
          Inl r' \<Rightarrow> r'
        | Inr (out', ek', es', l') \<Rightarrow> compute_output es' l' (objectValue out'))"
        by (simp add: eq type_literal_parse_def pps_def[symmetric] sigs_def[symmetric])
      show ?thesis
      proof (cases "handle_index_signatures h sigs input options (out, ek, es, l)")
        case (Inl r')
        with sigs have "\<not> mentionsKey key (errorsOf r')" by simp
        moreover from Inl have "isFailure r'"
          by (rule handle_index_signatures_returns_failure)
        moreover from Inl r_eq have "r = r'" by simp
        ultimately show ?thesis using failure by simp
      next
        case (Inr st')
        obtain out' ek' es' l' where st': "st' = (out', ek', es', l')" by (cases st')
        from sigs Inr st' have "\<not> mentionsKey key es'" "key \<notin> fst ` set (fst out')"
          by simp_all
        from final[OF this, of l'] Inr st' r_eq show ?thesis by simp
      qed
    qed
  qed
qed

theorem C9_index_signatures_ignore_witness:
  "KString ''extra'' \<in> set (ownKeys a_extra)
   \<and> go plain_host Decoder
        (TypeLiteral [PropertySignature (KString ''a'') StringKeyword False]
           [IndexSignature SymbolKeyword UnknownKeyword False])
        a_extra (parse_options False False)
       = Success (JObj [(KString ''a'', JStr ''x'')])
   \<and> \<not> mentionsKey (KString ''extra'')
        (errorsOf (go plain_host Decoder
           (TypeLiteral [PropertySignature (KString ''a'') StringKeyword False]
              [IndexSignature SymbolKeyword UnknownKeyword False])
           a_extra (parse_options False False)))
   \<and> \<not> hasOwnProperty
        (right (go plain_host Decoder
           (TypeLiteral [PropertySignature (KString ''a'') StringKeyword False]
              [IndexSignature SymbolKeyword UnknownKeyword False])
           a_extra (parse_options False False)))
        (KString ''extra'')"
proof -
  have own: "KString ''extra'' \<in> set (ownKeys a_extra)"
    by (simp add: a_extra_def eval_defs)
  have ne: "[IndexSignature SymbolKeyword UnknownKeyword False] \<noteq> []"
    by simp
  have name: "KString ''extra''
      \<notin> set (map ps_name [PropertySignature (KString ''a'') StringKeyword False])"
    by simp
  have kind: "\<forall>sig\<in>set [IndexSignature SymbolKeyword UnknownKeyword False].
      KString ''extra'' \<notin> set (getKeysForIndexSignature plain_host a_extra (is_parameter sig))"
    by (simp add: getKeysForIndexSignature_def a_extra_def eval_defs)
  have r: "go plain_host Decoder
        (TypeLiteral [PropertySignature (KString ''a'') StringKeyword False]
           [IndexSignature SymbolKeyword UnknownKeyword False])
        a_extra (parse_options False False)
       = Success (JObj [(KString ''a'', JStr ''x'')])"
    by (simp add: getKeysForIndexSignature_def a_extra_def eval_defs)
  from C9_index_signatures_ignore [OF ne name kind refl, of Decoder "parse_options False False"]
    own r
  show ?thesis by simp
qed

subsection \<open>A tuple without rest on a longer input\<close>

text \<open>The loop over the elements when every position is present and none fails, and
  the loop over the extra indexes when they are allowed.\<close>

lemma go_element_type: "go_element h as e = go h as (el_type e)"
  by (cases e) simp

lemma upt_0_Suc: "[0..<Suc n] = 0 # map Suc [0..<n]"
  by (simp only: upt_conv_Cons[of 0 "Suc n"] map_Suc_upt zero_less_Suc)

lemma handle_elements_valid:
  "i + length eps \<le> length xs \<Longrightarrow>
   \<forall>j<length eps. \<not> isFailure (snd (eps ! j) (xs ! (i + j)) options) \<Longrightarrow>
   handle_elements eps xs options i (out, es, l) =
     Inr ((out @ map (\<lambda>j. right (snd (eps ! j) (xs ! (i + j)) options)) [0..<length eps],
           es @ concat (map (\<lambda>j. warningAt (i + j) (snd (eps ! j) (xs ! (i + j)) options))
                          [0..<length eps]),
           l),
          i + length eps)"
proof (induction eps arbitrary: i out es)
  case Nil
  then show ?case by simp
next
  case (Cons ep eps)
  obtain el p where ep: "ep = (el, p)" by (cases ep)
  from Cons.prems have i: "\<not> length xs < i + 1" by simp
  from Cons.prems(2) have nf: "\<not> isFailure (p (xs ! i) options)"
    using ep by force
  from Cons.prems have len: "Suc i + length eps \<le> length xs" by simp
  from Cons.prems(2) have rest: "\<forall>j<length eps. \<not> isFailure (snd (eps ! j) (xs ! (Suc i + j)) options)"
    by force
  note IH = Cons.IH[OF len rest]
  show ?case
  proof (cases "p (xs ! i) options")
    case (Failure es')
    with nf show ?thesis by (simp add: isFailure_def)
  next
    case (Success a)
    with i show ?thesis
      by (simp add: ep IH upt_0_Suc comp_def del: upt_Suc)
  next
    case (Warning es' a)
    with i show ?thesis
      by (simp add: ep IH upt_0_Suc comp_def del: upt_Suc)
  qed
qed

lemma handle_unexpected_indexes_allowed:
  "isUnexpectedAllowed options \<Longrightarrow>
   handle_unexpected_indexes xs options i (out, es, l) =
     Inr (out, es @ map (\<lambda>j. Index j [Unexpected (xs ! j)]) [i..<length xs], l)"
proof (induction "length xs - i" arbitrary: i es)
  case 0
  then show ?case by (simp add: handle_unexpected_indexes.simps)
next
  case (Suc n)
  then have i: "i < length xs" and n: "n = length xs - Suc i" by simp_all
  from Suc.hyps(1)[OF n Suc.prems] i Suc.prems show ?case
    by (subst handle_unexpected_indexes.simps) (simp add: upt_conv_Cons)
qed

text \<open>The loop over the elements when every position is present and an element fails:
  with \<^verbatim>\<open>allErrors\<close> it visits every element and sets \<^verbatim>\<open>isLeft\<close>, without it returns at
  the first element that fails.\<close>

lemma handle_elements_all:
  "allErrors options \<Longrightarrow> i + length eps \<le> length xs \<Longrightarrow>
   \<exists>out'. handle_elements eps xs options i (out, es, l) =
     Inr ((out',
           es @ concat (map (\<lambda>j. errorAt (i + j) (snd (eps ! j) (xs ! (i + j)) options))
                          [0..<length eps]),
           l \<or> (\<exists>j<length eps. isFailure (snd (eps ! j) (xs ! (i + j)) options))),
          i + length eps)"
proof (induction eps arbitrary: i out es l)
  case Nil
  then show ?case by simp
next
  case (Cons ep eps)
  obtain el p where ep: "ep = (el, p)" by (cases ep)
  from Cons.prems have i: "\<not> length xs < i + 1" by simp
  from Cons.prems have len: "Suc i + length eps \<le> length xs" by simp
  note IH = Cons.IH[OF Cons.prems(1) len]
  show ?case
  proof (cases "p (xs ! i) options")
    case (Failure es')
    from IH[of out "es @ [Index i es']" True] obtain out' where
      "handle_elements eps xs options (Suc i) (out, es @ [Index i es'], True) =
        Inr ((out',
              (es @ [Index i es'])
              @ concat (map (\<lambda>j. errorAt (Suc i + j) (snd (eps ! j) (xs ! (Suc i + j)) options))
                          [0..<length eps]),
              True \<or> (\<exists>j<length eps. isFailure (snd (eps ! j) (xs ! (Suc i + j)) options))),
             Suc i + length eps)"
      by blast
    with Failure i Cons.prems(1) show ?thesis
      by (simp add: ep upt_0_Suc comp_def isFailure_def Ex_less_Suc2 del: upt_Suc)
  next
    case (Success a)
    from IH[of "out @ [a]" es l] obtain out' where
      "handle_elements eps xs options (Suc i) (out @ [a], es, l) =
        Inr ((out',
              es
              @ concat (map (\<lambda>j. errorAt (Suc i + j) (snd (eps ! j) (xs ! (Suc i + j)) options))
                          [0..<length eps]),
              l \<or> (\<exists>j<length eps. isFailure (snd (eps ! j) (xs ! (Suc i + j)) options))),
             Suc i + length eps)"
      by blast
    with Success i show ?thesis
      by (simp add: ep upt_0_Suc comp_def isFailure_def Ex_less_Suc2 del: upt_Suc)
  next
    case (Warning es' a)
    from IH[of "out @ [a]" "es @ [Index i es']" l] obtain out' where
      "handle_elements eps xs options (Suc i) (out @ [a], es @ [Index i es'], l) =
        Inr ((out',
              (es @ [Index i es'])
              @ concat (map (\<lambda>j. errorAt (Suc i + j) (snd (eps ! j) (xs ! (Suc i + j)) options))
                          [0..<length eps]),
              l \<or> (\<exists>j<length eps. isFailure (snd (eps ! j) (xs ! (Suc i + j)) options))),
             Suc i + length eps)"
      by blast
    with Warning i show ?thesis
      by (simp add: ep upt_0_Suc comp_def isFailure_def Ex_less_Suc2 del: upt_Suc)
  qed
qed

lemma handle_elements_first:
  "\<not> allErrors options \<Longrightarrow> i + length eps \<le> length xs \<Longrightarrow> k < length eps \<Longrightarrow>
   isFailure (snd (eps ! k) (xs ! (i + k)) options) \<Longrightarrow>
   \<forall>j<k. \<not> isFailure (snd (eps ! j) (xs ! (i + j)) options) \<Longrightarrow>
   handle_elements eps xs options i (out, es, l) =
     Inl (Failure
            (es @ concat (map (\<lambda>j. errorAt (i + j) (snd (eps ! j) (xs ! (i + j)) options))
                            [0..<Suc k])))"
proof (induction eps arbitrary: i k out es l)
  case Nil
  then show ?case by simp
next
  case (Cons ep eps)
  obtain el p where ep: "ep = (el, p)" by (cases ep)
  from Cons.prems have i: "\<not> length xs < i + 1" by simp
  from Cons.prems have len: "Suc i + length eps \<le> length xs" by simp
  show ?case
  proof (cases k)
    case 0
    with Cons.prems(4) obtain es' where "p (xs ! i) options = Failure es'"
      by (cases "p (xs ! i) options") (auto simp: ep isFailure_def)
    with 0 i Cons.prems(1) show ?thesis
      by (simp add: ep)
  next
    case (Suc k')
    with Cons.prems have k': "k' < length eps"
      and fails: "isFailure (snd (eps ! k') (xs ! (Suc i + k')) options)"
      and before: "\<forall>j<k'. \<not> isFailure (snd (eps ! j) (xs ! (Suc i + j)) options)"
      and head: "\<not> isFailure (p (xs ! i) options)"
      by (auto simp: ep)
    note IH = Cons.IH[OF Cons.prems(1) len k' fails before]
    show ?thesis
    proof (cases "p (xs ! i) options")
      case (Failure es')
      with head show ?thesis by (simp add: isFailure_def)
    next
      case (Success a)
      with i Suc show ?thesis
        by (simp add: ep IH upt_0_Suc[of "Suc k'"] comp_def del: upt_Suc)
    next
      case (Warning es' a)
      with i Suc show ?thesis
        by (simp add: ep IH upt_0_Suc[of "Suc k'"] comp_def del: upt_Suc)
    qed
  qed
qed


text \<open>
  C10, as stated: for a tuple without rest, \<^verbatim>\<open>isUnexpectedAllowed\<close> and an input longer
  than the elements, the result is to be a warning. It is a failure when an element does
  not parse.
\<close>

theorem C10_counterexample:
  "decode plain_host (Tuple [Element StringKeyword False] None False)
     (JArr [JNum (Finite 1), JNum (Finite 2)]) (parse_options True False)
   = Failure [Index 0 [Type StringKeyword (JNum (Finite 1))]]"
  by (simp add: eval_defs)

text \<open>
  C10, amended: for a tuple without rest, when \<^verbatim>\<open>isUnexpectedAllowed\<close> is set and the
  input array is longer than the elements. If none of the elements fails on its position,
  the result is a warning: its errors are the warnings of the elements, each under its
  index, followed by \<open>Index(i, [Unexpected(input[i])])\<close> for every extra position, and its
  value is the array of the values of the elements alone. If an element fails, the result
  is a failure: with \<^verbatim>\<open>allErrors\<close> its errors are the errors of all the elements, warnings
  and failures, each under its index, followed by the errors of the extra positions;
  without \<^verbatim>\<open>allErrors\<close> they are the errors of the elements up to the first one that
  fails.
\<close>

theorem C10_tuple_unexpected_allowed:
  "isUnexpectedAllowed options \<Longrightarrow> length elements < length xs \<Longrightarrow>
   ((\<forall>i<length elements. \<not> isFailure (go h as (el_type (elements ! i)) (xs ! i) options)) \<longrightarrow>
      go h as (Tuple elements None isReadonly) (JArr xs) options =
        Warning
          (concat (map (\<lambda>i. warningAt i (go h as (el_type (elements ! i)) (xs ! i) options))
                     [0..<length elements])
           @ map (\<lambda>i. Index i [Unexpected (xs ! i)]) [length elements..<length xs])
          (JArr (map (\<lambda>i. right (go h as (el_type (elements ! i)) (xs ! i) options))
                   [0..<length elements])))
   \<and> ((\<exists>i<length elements. isFailure (go h as (el_type (elements ! i)) (xs ! i) options)) \<longrightarrow>
        isFailure (go h as (Tuple elements None isReadonly) (JArr xs) options)
      \<and> (allErrors options \<longrightarrow>
           go h as (Tuple elements None isReadonly) (JArr xs) options =
             Failure
               (concat (map (\<lambda>i. errorAt i (go h as (el_type (elements ! i)) (xs ! i) options))
                          [0..<length elements])
                @ map (\<lambda>i. Index i [Unexpected (xs ! i)]) [length elements..<length xs]))
      \<and> (\<not> allErrors options \<longrightarrow>
           (\<forall>k<length elements.
              isFailure (go h as (el_type (elements ! k)) (xs ! k) options)
              \<and> (\<forall>j<k. \<not> isFailure (go h as (el_type (elements ! j)) (xs ! j) options)) \<longrightarrow>
              go h as (Tuple elements None isReadonly) (JArr xs) options =
                Failure
                  (concat (map (\<lambda>i. errorAt i (go h as (el_type (elements ! i)) (xs ! i) options))
                             [0..<Suc k])))))"
proof -
  assume allowed: "isUnexpectedAllowed options" and longer: "length elements < length xs"
  define r where "r = (\<lambda>i. go h as (el_type (elements ! i)) (xs ! i) options)"
  define result where "result = go h as (Tuple elements None isReadonly) (JArr xs) options"
  define extra where "extra = map (\<lambda>i. Index i [Unexpected (xs ! i)]) [length elements..<length xs]"
  define eps where "eps = zip elements (map (go_element h as) elements)"
  have len: "length eps = length elements" by (simp add: eps_def)
  have snd_eps: "\<And>j. j < length elements \<Longrightarrow> snd (eps ! j) (xs ! j) options = r j"
    by (simp add: eps_def go_element_type r_def)
  from longer have l0: "0 + length eps \<le> length xs" by (simp add: len)
  have w: "map (\<lambda>j. warningAt j (snd (eps ! j) (xs ! j) options)) [0..<length elements]
         = map (\<lambda>i. warningAt i (r i)) [0..<length elements]"
    by (simp add: snd_eps)
  have v: "map (\<lambda>j. right (snd (eps ! j) (xs ! j) options)) [0..<length elements]
         = map (\<lambda>i. right (r i)) [0..<length elements]"
    by (simp add: snd_eps)
  have e: "k \<le> length elements \<Longrightarrow>
      map (\<lambda>j. errorAt j (snd (eps ! j) (xs ! j) options)) [0..<k]
         = map (\<lambda>i. errorAt i (r i)) [0..<k]" for k
    by (simp add: snd_eps)
  have parse: "result =
      (case handle_elements eps xs options 0 ([], [], False) of
         Inl t \<Rightarrow> t
       | Inr (st, i) \<Rightarrow>
           (case handle_unexpected_indexes xs options i st of
              Inl t \<Rightarrow> t
            | Inr (output, es, isLeft) \<Rightarrow> compute_output es isLeft (JArr output)))"
    by (simp add: result_def tuple_parse_def eps_def split: sum.split)
  from longer have extra: "extra \<noteq> []"
    by (auto simp: extra_def)
  have warning: "(\<forall>i<length elements. \<not> isFailure (r i)) \<longrightarrow>
      result = Warning (concat (map (\<lambda>i. warningAt i (r i)) [0..<length elements]) @ extra)
                 (JArr (map (\<lambda>i. right (r i)) [0..<length elements]))"
  proof
    assume valid: "\<forall>i<length elements. \<not> isFailure (r i)"
    then have v0: "\<forall>j<length eps. \<not> isFailure (snd (eps ! j) (xs ! (0 + j)) options)"
      by (simp add: len snd_eps)
    show "result = Warning (concat (map (\<lambda>i. warningAt i (r i)) [0..<length elements]) @ extra)
                 (JArr (map (\<lambda>i. right (r i)) [0..<length elements]))"
      using handle_elements_valid[OF l0 v0, of "[]" "[]" False]
        handle_unexpected_indexes_allowed[OF allowed] extra
      by (simp add: parse len w v compute_output_def extra_def)
  qed
  have every: "allErrors options \<Longrightarrow> \<exists>i<length elements. isFailure (r i) \<Longrightarrow>
      result = Failure (concat (map (\<lambda>i. errorAt i (r i)) [0..<length elements]) @ extra)"
  proof -
    assume all: "allErrors options" and some: "\<exists>i<length elements. isFailure (r i)"
    from some have s0: "\<exists>j<length eps. isFailure (snd (eps ! j) (xs ! (0 + j)) options)"
      by (auto simp: len snd_eps)
    from handle_elements_all[OF all l0, of "[]" "[]" False] s0 obtain out' where
      "handle_elements eps xs options 0 ([], [], False) =
         Inr ((out',
               concat (map (\<lambda>j. errorAt j (snd (eps ! j) (xs ! j) options)) [0..<length eps]),
               True),
              length eps)"
      by auto
    with handle_unexpected_indexes_allowed[OF allowed] extra show ?thesis
      by (simp add: parse len e compute_output_def extra_def)
  qed
  have first: "\<not> allErrors options \<Longrightarrow> k < length elements \<Longrightarrow> isFailure (r k) \<Longrightarrow>
      \<forall>j<k. \<not> isFailure (r j) \<Longrightarrow>
      result = Failure (concat (map (\<lambda>i. errorAt i (r i)) [0..<Suc k]))" for k
  proof -
    assume none: "\<not> allErrors options" and k: "k < length elements" and fails: "isFailure (r k)"
      and before: "\<forall>j<k. \<not> isFailure (r j)"
    from k have k0: "k < length eps" by (simp add: len)
    from fails k have f0: "isFailure (snd (eps ! k) (xs ! (0 + k)) options)"
      by (simp add: snd_eps)
    from before k have b0: "\<forall>j<k. \<not> isFailure (snd (eps ! j) (xs ! (0 + j)) options)"
      by (simp add: snd_eps)
    from k have "Suc k \<le> length elements" by simp
    with handle_elements_first[OF none l0 k0 f0 b0, of "[]" "[]" False] show ?thesis
      by (simp add: parse e del: upt_Suc)
  qed
  have some: "\<exists>i<length elements. isFailure (r i) \<Longrightarrow> isFailure result"
  proof (cases "allErrors options")
    case True
    assume "\<exists>i<length elements. isFailure (r i)"
    with every[OF True] show ?thesis by (simp add: isFailure_def)
  next
    case False
    assume "\<exists>i<length elements. isFailure (r i)"
    then have "\<exists>i. i < length elements \<and> isFailure (r i)" by blast
    then obtain k where "k < length elements \<and> isFailure (r k)"
      and "\<forall>j<k. \<not> (j < length elements \<and> isFailure (r j))"
      by (auto simp: exists_least_iff[of "\<lambda>i. i < length elements \<and> isFailure (r i)"])
    then have "k < length elements" "isFailure (r k)" "\<forall>j<k. \<not> isFailure (r j)"
      by auto
    from first[OF False this] show ?thesis by (simp add: isFailure_def)
  qed
  from warning every first some show ?thesis
    unfolding r_def result_def extra_def by blast
qed

theorem C10_tuple_unexpected_allowed_witness:
  "isUnexpectedAllowed (parse_options True False)
   \<and> length pair_elements < length four_items
   \<and> go plain_host Decoder (el_type (pair_elements ! 0)) (four_items ! 0)
        (parse_options True False) = Success (JStr ''a'')
   \<and> go plain_host Decoder (el_type (pair_elements ! 1)) (four_items ! 1)
        (parse_options True False)
       = Warning [Index 0 [Unexpected (JNum (Finite 7))]] (JArr [])
   \<and> go plain_host Decoder (Tuple pair_elements None False) (JArr four_items)
        (parse_options True False)
       = Warning
           [Index 1 [Index 0 [Unexpected (JNum (Finite 7))]],
            Index 2 [Unexpected (JNum (Finite 2))],
            Index 3 [Unexpected (JNum (Finite 3))]]
           (JArr [JStr ''a'', JArr []])
   \<and> length pair_elements < length three_items
   \<and> go plain_host Decoder (el_type (pair_elements ! 0)) (three_items ! 0)
        (parse_options True False) = Failure [Type StringKeyword (JNum (Finite 1))]
   \<and> go plain_host Decoder (Tuple pair_elements None False) (JArr three_items)
        (parse_options True False)
       = Failure [Index 0 [Type StringKeyword (JNum (Finite 1))]]
   \<and> isUnexpectedAllowed (parse_options True True) \<and> allErrors (parse_options True True)
   \<and> go plain_host Decoder (Tuple pair_elements None False) (JArr three_items)
        (parse_options True True)
       = Failure
           [Index 0 [Type StringKeyword (JNum (Finite 1))],
            Index 1 [Index 0 [Unexpected (JNum (Finite 7))]],
            Index 2 [Unexpected (JNum (Finite 2))]]"
proof -
  have a: "isUnexpectedAllowed (parse_options True b)" for b
    by (simp add: parse_options_def)
  have all: "allErrors (parse_options True True)" "\<not> allErrors (parse_options True False)"
    by (simp_all add: parse_options_def)
  have l: "length pair_elements < length four_items"
    and l3: "length pair_elements < length three_items"
    by (simp_all add: pair_elements_def four_items_def three_items_def)
  have r0: "go plain_host Decoder (el_type (pair_elements ! 0)) (four_items ! 0)
        (parse_options True False) = Success (JStr ''a'')"
    by (simp add: pair_elements_def four_items_def eval_defs)
  have r1: "go plain_host Decoder (el_type (pair_elements ! 1)) (four_items ! 1)
        (parse_options True False)
       = Warning [Index 0 [Unexpected (JNum (Finite 7))]] (JArr [])"
    by (simp add: pair_elements_def four_items_def eval_defs)
  have f0: "go plain_host Decoder (el_type (pair_elements ! 0)) (three_items ! 0)
        (parse_options True b) = Failure [Type StringKeyword (JNum (Finite 1))]" for b
    by (simp add: pair_elements_def three_items_def eval_defs)
  have f1: "go plain_host Decoder (el_type (pair_elements ! 1)) (three_items ! 1)
        (parse_options True b)
       = Warning [Index 0 [Unexpected (JNum (Finite 7))]] (JArr [])" for b
    by (simp add: pair_elements_def three_items_def eval_defs)
  have v: "\<forall>i<length pair_elements.
      \<not> isFailure (go plain_host Decoder (el_type (pair_elements ! i)) (four_items ! i)
           (parse_options True False))"
  proof (intro allI impI)
    fix i assume "i < length pair_elements"
    then have "i = 0 \<or> i = 1" by (auto simp: pair_elements_def)
    with r0 r1 show "\<not> isFailure (go plain_host Decoder (el_type (pair_elements ! i))
        (four_items ! i) (parse_options True False))"
      by (auto simp: isFailure_def)
  qed
  have n: "[0..<length pair_elements] = [0, 1]"
    and m: "[length pair_elements..<length four_items] = [2, 3]"
    and m3: "[length pair_elements..<length three_items] = [2]"
    by (simp_all add: pair_elements_def four_items_def three_items_def upt_conv_Cons)
  have x: "four_items ! 2 = JNum (Finite 2)" "four_items ! 3 = JNum (Finite 3)"
    "three_items ! 2 = JNum (Finite 2)"
    by (simp_all add: four_items_def three_items_def)
  from C10_tuple_unexpected_allowed [where options = "parse_options True False"
      and elements = pair_elements and xs = four_items and h = plain_host and as = Decoder
      and isReadonly = False, OF a l]
    v r0 r1
  have w: "go plain_host Decoder (Tuple pair_elements None False) (JArr four_items)
        (parse_options True False)
       = Warning
           [Index 1 [Index 0 [Unexpected (JNum (Finite 7))]],
            Index 2 [Unexpected (JNum (Finite 2))],
            Index 3 [Unexpected (JNum (Finite 3))]]
           (JArr [JStr ''a'', JArr []])"
    by (simp add: n m x)
  have some: "\<exists>i<length pair_elements.
      isFailure (go plain_host Decoder (el_type (pair_elements ! i)) (three_items ! i)
           (parse_options True b))" for b
    using f0[of b] by (intro exI[of _ 0]) (simp add: isFailure_def pair_elements_def)
  have z: "0 < length pair_elements"
    by (simp add: pair_elements_def)
  from C10_tuple_unexpected_allowed [where options = "parse_options True False"
      and elements = pair_elements and xs = three_items and h = plain_host and as = Decoder
      and isReadonly = False, OF a l3]
    some[of False] all(2) z f0[of False]
  have first: "go plain_host Decoder (Tuple pair_elements None False) (JArr three_items)
        (parse_options True False)
       = Failure [Index 0 [Type StringKeyword (JNum (Finite 1))]]"
    by (auto simp: isFailure_def)
  from C10_tuple_unexpected_allowed [where options = "parse_options True True"
      and elements = pair_elements and xs = three_items and h = plain_host and as = Decoder
      and isReadonly = False, OF a l3]
    some[of True] all(1) f0[of True] f1[of True]
  have every: "go plain_host Decoder (Tuple pair_elements None False) (JArr three_items)
        (parse_options True True)
       = Failure
           [Index 0 [Type StringKeyword (JNum (Finite 1))],
            Index 1 [Index 0 [Unexpected (JNum (Finite 7))]],
            Index 2 [Unexpected (JNum (Finite 2))]]"
    by (simp add: n m3 x)
  from a[of False] a[of True] all(1) l l3 r0 r1 f0[of False] w first every show ?thesis
    by simp
qed

end
